theory Spec2Isabelle
  imports Complex_Main
begin

section \<open>CallFlow backend: the webhook handlers of \<open>index.js\<close>\<close>

text \<open>
  The three POST handlers of \<open>index.js\<close> (\<open>/incoming-call\<close>, \<open>/process-speech\<close>,
  \<open>/call-ended\<close>) are embedded as functions from a world (the Redis key space, the audio
  directory and the list of provider calls issued so far) to an outcome and a new world.

  Conventions of the embedding:
  \<^item> a JavaScript value that is a string or \<open>undefined\<close> is a \<open>string option\<close>;
    a template literal renders \<open>undefined\<close> as the text \<open>undefined\<close>;
  \<^item> strings are lists of 8-bit characters (the Latin-1 range of the UTF-16 code units);
  \<^item> numbers are exact: the lengths, millisecond differences and limits compared by the
    handlers are far inside the range where IEEE doubles are exact or order-preserving;
  \<^item> \<open>JSON.stringify\<close> followed by \<open>JSON.parse\<close> is the identity on the objects the
    handlers store, so a stored string is represented by the object it encodes;
  \<^item> an \<open>await\<close> that rejects makes the \<open>async\<close> handler reject: no handler contains a
    \<open>try\<close>, so the outcome is \<open>Uncaught\<close>, nothing after the failing call runs and the
    handler itself sends nothing; what the web framework then does with the rejected
    promise (an error page, or nothing at all) differs between Express versions, which
    the repository does not pin, and is outside the model;
  \<^item> every clock read inside one request returns the same instant;
  \<^item> Redis commands themselves succeed, except for the type error Redis raises when a
    string command meets a hash key or the reverse; expiry of keys is recorded as the
    time-to-live of an entry, the passing of time that removes it is not modelled;
  \<^item> the rate limiter, logging and the rendering of the TwiML text are left out.
\<close>

subsection \<open>Values\<close>

type_synonym jsstr = "string option"

definition tpl :: "jsstr \<Rightarrow> string" where
  "tpl v = (case v of None \<Rightarrow> ''undefined'' | Some s \<Rightarrow> s)"

datatype role = System | User | Assistant

record message =
  role :: role
  content :: string

record session =
  callSid :: jsstr
  tenantId :: jsstr
  fromAddr :: jsstr
  intent :: "string option"
  startTime :: int
  resolvedBy :: string
  messages :: "message list"

record tenant_config =
  businessName :: jsstr
  businessHours :: jsstr
  humanAgent :: jsstr
  aiStyle :: jsstr
  enableHumanTransfer :: bool

text \<open>
  The JSON objects found under string keys. The handlers write session objects and, at
  \<open>/call-ended\<close>, the spread \<open>{...session, durationSec, endedAt}\<close>; tenant configurations
  are written by someone else. The second component holds the two fields the spread
  adds, when present (\<open>durationSec\<close> is \<open>null\<close> when the subtraction gave \<open>NaN\<close>).
\<close>

type_synonym extras = "(int option \<times> string) option"

datatype doc = SessionDoc session extras | ConfigDoc tenant_config extras

text \<open>
  A Redis value is a string (here the object it encodes) or a hash of integer counters;
  an entry of the key space pairs the value with its time-to-live in seconds, if any.
\<close>

datatype rval = Str doc | Hash "string \<rightharpoonup> int"

text \<open>
  The audio files \<open>./audio/<callSid>-welcome.mp3\<close> and \<open>./audio/<callSid>-<ms>.mp3\<close>,
  named by the rendered call identifier and, for a reply, the clock reading.
\<close>

datatype audio_ref = Welcome string | Reply string int

text \<open>
  The requests sent to the providers: a chat completion with its temperature and
  message list, and a speech synthesis with its input text.
\<close>

datatype provider_call = ChatCall rat "message list" | SpeechCall string

record world =
  kv :: "string \<rightharpoonup> (rval \<times> nat option)"
  files :: "audio_ref \<rightharpoonup> string"
  calls :: "provider_call list"

text \<open>
  The variables of \<open>process.env\<close> the handlers read. A limit is absent (or empty, which
  \<open>||\<close> treats alike) or holds a number; a text that \<open>Number\<close> turns into \<open>NaN\<close> is
  outside the model.
\<close>

record process_env =
  HUMAN_AGENT_NUMBER :: jsstr
  MAX_CALL_TURNS :: "rat option"
  MAX_CALL_DURATION_SEC :: "rat option"

text \<open>\<open>Date.now()\<close> in milliseconds and \<open>new Date().toISOString()\<close>.\<close>

record clock =
  now :: int
  nowISO :: string

text \<open>
  The answer \<open>fetch\<close> resolves with: the HTTP status and the bytes of the body. \<open>fetch\<close>
  resolves for every status, also 401, 429 or 500, whose body is the provider's error
  message; it rejects only when no answer arrives (network failure, timeout).
\<close>

record http_reply =
  status :: nat
  body :: string

text \<open>
  What the providers answer in one request. A chat completion made through the client
  library yields the content of the first choice, or \<open>None\<close> when the call rejects (the
  library rejects on a network failure and on an HTTP error status alike). A speech
  synthesis made through \<open>fetch\<close> yields the reply, or \<open>None\<close> when \<open>fetch\<close> rejects.
\<close>

record providers =
  chat :: "rat \<Rightarrow> message list \<Rightarrow> string option"
  speech :: "string \<Rightarrow> http_reply option"

record request =
  CallSid :: jsstr
  To :: jsstr
  From :: jsstr
  SpeechResult :: jsstr

text \<open>
  The ways a handler rejects: a Redis command on a key of the wrong type, a property
  read on \<open>undefined\<close>, and a rejected provider call.
\<close>

datatype fault = WrongType | TypeError | ChatFailed | SpeechFailed

datatype response = PlayGather audio_ref | Say string | PlayDial string | Status200

datatype outcome = Sent response | Uncaught fault

subsection \<open>Redis key helpers\<close>

definition tenantKey :: "jsstr \<Rightarrow> string" where
  "tenantKey tid = ''tenant:'' @ tpl tid @ '':config''"

definition sessionKey :: "jsstr \<Rightarrow> jsstr \<Rightarrow> string" where
  "sessionKey tid sid = ''tenant:'' @ tpl tid @ '':call:session:'' @ tpl sid"

definition logKey :: "jsstr \<Rightarrow> jsstr \<Rightarrow> string" where
  "logKey tid sid = ''tenant:'' @ tpl tid @ '':call:log:'' @ tpl sid"

definition analyticsKey :: "clock \<Rightarrow> jsstr \<Rightarrow> string" where
  "analyticsKey clk tid = ''tenant:'' @ tpl tid @ '':analytics:daily:'' @ take 10 (nowISO clk)"

subsection \<open>Redis commands\<close>

definition redis_get :: "world \<Rightarrow> string \<Rightarrow> fault + doc option" where
  "redis_get w k =
     (case kv w k of
        None \<Rightarrow> Inr None
      | Some (Str d, t) \<Rightarrow> Inr (Some d)
      | Some (Hash h, t) \<Rightarrow> Inl WrongType)"

definition redis_set_ex :: "string \<Rightarrow> doc \<Rightarrow> nat \<Rightarrow> world \<Rightarrow> world" where
  "redis_set_ex k d secs w = w\<lparr>kv := (kv w)(k \<mapsto> (Str d, Some secs))\<rparr>"

definition redis_set :: "string \<Rightarrow> doc \<Rightarrow> world \<Rightarrow> world" where
  "redis_set k d w = w\<lparr>kv := (kv w)(k \<mapsto> (Str d, None))\<rparr>"

definition redis_hincrby :: "string \<Rightarrow> string \<Rightarrow> int \<Rightarrow> world \<Rightarrow> fault + world" where
  "redis_hincrby k f n w =
     (case kv w k of
        None \<Rightarrow> Inr (w\<lparr>kv := (kv w)(k \<mapsto> (Hash [f \<mapsto> n], None))\<rparr>)
      | Some (Hash h, t) \<Rightarrow>
          Inr (w\<lparr>kv := (kv w)(k \<mapsto> (Hash (h(f \<mapsto> (case h f of None \<Rightarrow> 0 | Some c \<Rightarrow> c) + n)), t))\<rparr>)
      | Some (Str d, t) \<Rightarrow> Inl WrongType)"

definition redis_del :: "string \<Rightarrow> world \<Rightarrow> world" where
  "redis_del k w = w\<lparr>kv := (kv w)(k := None)\<rparr>"

subsection \<open>String helpers of the JavaScript runtime\<close>

definition toLowerChar :: "char \<Rightarrow> char" where
  "toLowerChar c =
     (let n = (of_char c :: nat)
      in if (65 \<le> n \<and> n \<le> 90) \<or> (192 \<le> n \<and> n \<le> 222 \<and> n \<noteq> 215)
         then char_of (n + 32) else c)"

definition toLowerCase :: "string \<Rightarrow> string" where
  "toLowerCase s = map toLowerChar s"

fun startsWith :: "string \<Rightarrow> string \<Rightarrow> bool" where
  "startsWith s [] = True"
| "startsWith [] (k # ks) = False"
| "startsWith (c # cs) (k # ks) = (c = k \<and> startsWith cs ks)"

fun includes_str :: "string \<Rightarrow> string \<Rightarrow> bool" where
  "includes_str [] k = (k = [])"
| "includes_str (c # cs) k = (startsWith (c # cs) k \<or> includes_str cs k)"

definition isWhiteSpace :: "char \<Rightarrow> bool" where
  "isWhiteSpace c = ((of_char c :: nat) \<in> {9, 10, 11, 12, 13, 32, 160})"

definition trim :: "string \<Rightarrow> string" where
  "trim s = rev (dropWhile isWhiteSpace (rev (dropWhile isWhiteSpace s)))"

subsection \<open>Helpers\<close>

definition defaultTenant :: "process_env \<Rightarrow> tenant_config" where
  "defaultTenant pe =
     \<lparr>businessName = Some ''CallFlow Client'',
      businessHours = Some ''10 AM to 6 PM'',
      humanAgent = HUMAN_AGENT_NUMBER pe,
      aiStyle = Some ''polite and professional'',
      enableHumanTransfer = True\<rparr>"

text \<open>
  \<open>JSON.parse\<close> of a stored object read as a tenant configuration: an object written
  for a session has none of the five fields, so each reads as \<open>undefined\<close>.
\<close>

definition parseTenant :: "doc \<Rightarrow> tenant_config" where
  "parseTenant d =
     (case d of
        ConfigDoc c x \<Rightarrow> c
      | SessionDoc s x \<Rightarrow>
          \<lparr>businessName = None, businessHours = None, humanAgent = None,
           aiStyle = None, enableHumanTransfer = False\<rparr>)"

definition getTenantConfig :: "process_env \<Rightarrow> world \<Rightarrow> jsstr \<Rightarrow> fault + tenant_config" where
  "getTenantConfig pe w tid =
     (case redis_get w (tenantKey tid) of
        Inl f \<Rightarrow> Inl f
      | Inr None \<Rightarrow> Inr (defaultTenant pe)
      | Inr (Some d) \<Rightarrow> Inr (parseTenant d))"

text \<open>
  \<open>generateSpeech\<close> never looks at \<open>response.ok\<close> or \<open>response.status\<close>: whatever body the
  reply carries is written to the file.
\<close>

definition generateSpeech :: "providers \<Rightarrow> string \<Rightarrow> audio_ref \<Rightarrow> world \<Rightarrow> fault option \<times> world" where
  "generateSpeech p txt file w =
     (let w1 = w\<lparr>calls := calls w @ [SpeechCall txt]\<rparr>
      in case speech p txt of
           None \<Rightarrow> (Some SpeechFailed, w1)
         | Some response \<Rightarrow> (None, w1\<lparr>files := (files w1)(file \<mapsto> body response)\<rparr>))"

subsection \<open>Incoming call\<close>

definition systemPrompt :: "tenant_config \<Rightarrow> string" where
  "systemPrompt tenant =
     ''You are an AI receptionist for '' @ tpl (businessName tenant) @ ''.'' @ [CHR 0x0A] @
     ''Style: '' @ tpl (aiStyle tenant) @ ''.'' @ [CHR 0x0A] @
     ''Business hours: '' @ tpl (businessHours tenant) @ ''.''"

definition newSession :: "clock \<Rightarrow> request \<Rightarrow> tenant_config \<Rightarrow> session" where
  "newSession clk req tenant =
     \<lparr>callSid = CallSid req,
      tenantId = To req,
      fromAddr = From req,
      intent = None,
      startTime = now clk,
      resolvedBy = ''AI'',
      messages = [\<lparr>role = System, content = systemPrompt tenant\<rparr>]\<rparr>"

definition incoming_call ::
  "process_env \<Rightarrow> clock \<Rightarrow> providers \<Rightarrow> request \<Rightarrow> world \<Rightarrow> outcome \<times> world" where
  "incoming_call pe clk p req w =
     (case getTenantConfig pe w (To req) of
        Inl f \<Rightarrow> (Uncaught f, w)
      | Inr tenant \<Rightarrow>
          (let w1 = redis_set_ex (sessionKey (To req) (CallSid req))
                      (SessionDoc (newSession clk req tenant) None) 3600 w;
               welcomeText = ''Hello. You have reached '' @ tpl (businessName tenant) @
                             ''. How can I help you today?'';
               audioFile = Welcome (tpl (CallSid req))
           in case generateSpeech p welcomeText audioFile w1 of
                (Some f, w2) \<Rightarrow> (Uncaught f, w2)
              | (None, w2) \<Rightarrow> (Sent (PlayGather audioFile), w2)))"

subsection \<open>Process speech\<close>

definition maxCallTurns :: "process_env \<Rightarrow> rat" where
  "maxCallTurns pe = (case MAX_CALL_TURNS pe of None \<Rightarrow> 20 | Some n \<Rightarrow> n)"

definition maxCallDurationSec :: "process_env \<Rightarrow> rat" where
  "maxCallDurationSec pe = (case MAX_CALL_DURATION_SEC pe of None \<Rightarrow> 900 | Some n \<Rightarrow> n)"

definition overTurns :: "process_env \<Rightarrow> session \<Rightarrow> bool" where
  "overTurns pe s = (of_nat (length (messages s)) / 2 > maxCallTurns pe)"

definition overTime :: "process_env \<Rightarrow> clock \<Rightarrow> session \<Rightarrow> bool" where
  "overTime pe clk s = (of_int (now clk - startTime s) / 1000 > maxCallDurationSec pe)"

definition transferKeywords :: "string list" where
  "transferKeywords = [''human'', ''agent'', ''person'', ''operator'']"

definition wantsHuman :: "tenant_config \<Rightarrow> string \<Rightarrow> bool" where
  "wantsHuman tenant lower =
     (enableHumanTransfer tenant \<and> list_ex (\<lambda>k. includes_str lower k) transferKeywords)"

definition classifyPrompt :: "string \<Rightarrow> message list" where
  "classifyPrompt userSpeech =
     [\<lparr>role = System,
       content = ''Classify intent: sales, support, info, or unknown. One word only.''\<rparr>,
      \<lparr>role = User, content = userSpeech\<rparr>]"

text \<open>
  \<open>if (!session.intent)\<close>: the test is JavaScript truthiness, so both \<open>null\<close> and the
  empty string pass it.
\<close>

definition intentMissing :: "session \<Rightarrow> bool" where
  "intentMissing s = (intent s = None \<or> intent s = Some [])"

definition detectIntent ::
  "providers \<Rightarrow> string \<Rightarrow> session \<Rightarrow> world \<Rightarrow> (fault \<times> world) + (session \<times> world)" where
  "detectIntent p userSpeech s w =
     (if intentMissing s then
        (let w1 = w\<lparr>calls := calls w @ [ChatCall 0 (classifyPrompt userSpeech)]\<rparr>
         in case chat p 0 (classifyPrompt userSpeech) of
              None \<Rightarrow> Inl (ChatFailed, w1)
            | Some c \<Rightarrow> Inr (s\<lparr>intent := Some (trim c)\<rparr>, w1))
      else Inr (s, w))"

text \<open>
  The part of the handler after the human-transfer check: intent detection, the reply,
  the write of the session and the synthesis of the reply. A rejected chat call leaves
  the handler before any write; the provider call it made is still recorded.
\<close>

definition aiReply ::
  "clock \<Rightarrow> providers \<Rightarrow> request \<Rightarrow> string \<Rightarrow> string \<Rightarrow> extras \<Rightarrow> session \<Rightarrow> world
     \<Rightarrow> outcome \<times> world" where
  "aiReply clk p req key userSpeech x s w =
     (case detectIntent p userSpeech s w of
        Inl (f, w1) \<Rightarrow> (Uncaught f, w1)
      | Inr (s1, w1) \<Rightarrow>
          (let w2 = w1\<lparr>calls := calls w1 @ [ChatCall (3 / 10) (messages s1)]\<rparr>
           in case chat p (3 / 10) (messages s1) of
                None \<Rightarrow> (Uncaught ChatFailed, w2)
              | Some reply \<Rightarrow>
                  (let s2 = s1\<lparr>messages := messages s1 @ [\<lparr>role = Assistant, content = reply\<rparr>]\<rparr>;
                       w3 = redis_set_ex key (SessionDoc s2 x) 3600 w2;
                       audioFile = Reply (tpl (CallSid req)) (now clk)
                   in case generateSpeech p reply audioFile w3 of
                        (Some f, w4) \<Rightarrow> (Uncaught f, w4)
                      | (None, w4) \<Rightarrow> (Sent (PlayGather audioFile), w4))))"

text \<open>\<open>req.body.SpeechResult || ""\<close>\<close>

definition speechOf :: "request \<Rightarrow> string" where
  "speechOf req = (case SpeechResult req of None \<Rightarrow> [] | Some t \<Rightarrow> t)"

definition process_speech ::
  "process_env \<Rightarrow> clock \<Rightarrow> providers \<Rightarrow> request \<Rightarrow> world \<Rightarrow> outcome \<times> world" where
  "process_speech pe clk p req w =
     (let userSpeech = speechOf req;
          key = sessionKey (To req) (CallSid req)
      in case redis_get w key of
           Inl f \<Rightarrow> (Uncaught f, w)
         | Inr None \<Rightarrow> (Sent Status200, w)
         | Inr (Some (ConfigDoc c x)) \<Rightarrow> (Uncaught TypeError, w)
         | Inr (Some (SessionDoc s x)) \<Rightarrow>
             if overTurns pe s then
               (Sent (Say ''This call has reached its maximum length. Thank you.''),
                redis_set_ex key (SessionDoc (s\<lparr>resolvedBy := ''LIMIT''\<rparr>) x) 3600 w)
             else if overTime pe clk s then
               (Sent (Say ''This call has timed out. Thank you.''),
                redis_set_ex key (SessionDoc (s\<lparr>resolvedBy := ''TIME_LIMIT''\<rparr>) x) 3600 w)
             else
               (case getTenantConfig pe w (To req) of
                  Inl f \<Rightarrow> (Uncaught f, w)
                | Inr tenant \<Rightarrow>
                    (let lower = toLowerCase userSpeech;
                         s1 = s\<lparr>messages := messages s @ [\<lparr>role = User, content = userSpeech\<rparr>]\<rparr>
                     in if wantsHuman tenant lower then
                          (Sent (PlayDial (tpl (humanAgent tenant))),
                           redis_set_ex key (SessionDoc (s1\<lparr>resolvedBy := ''HUMAN''\<rparr>) x) 3600 w)
                        else aiReply clk p req key userSpeech x s1 w)))"

subsection \<open>Call ended\<close>

definition withExtras :: "doc \<Rightarrow> int option \<times> string \<Rightarrow> doc" where
  "withExtras d e = (case d of SessionDoc s x \<Rightarrow> SessionDoc s (Some e) | ConfigDoc c x \<Rightarrow> ConfigDoc c (Some e))"

text \<open>
  \<open>Math.floor((Date.now() - session.startTime) / 1000)\<close>; an object without
  \<open>startTime\<close> gives \<open>NaN\<close>, which \<open>JSON.stringify\<close> writes as \<open>null\<close>.
\<close>

definition durationOf :: "clock \<Rightarrow> doc \<Rightarrow> int option" where
  "durationOf clk d =
     (case d of SessionDoc s x \<Rightarrow> Some ((now clk - startTime s) div 1000) | ConfigDoc c x \<Rightarrow> None)"

definition resolvedField :: "doc \<Rightarrow> string" where
  "resolvedField d =
     ''resolved_'' @ (case d of SessionDoc s x \<Rightarrow> resolvedBy s | ConfigDoc c x \<Rightarrow> ''undefined'')"

definition call_ended :: "clock \<Rightarrow> request \<Rightarrow> world \<Rightarrow> outcome \<times> world" where
  "call_ended clk req w =
     (let key = sessionKey (To req) (CallSid req)
      in case redis_get w key of
           Inl f \<Rightarrow> (Uncaught f, w)
         | Inr None \<Rightarrow> (Sent Status200, w)
         | Inr (Some d) \<Rightarrow>
             (let w1 = redis_set (logKey (To req) (CallSid req))
                         (withExtras d (durationOf clk d, nowISO clk)) w
              in case redis_hincrby (analyticsKey clk (To req)) ''total_calls'' 1 w1 of
                   Inl f \<Rightarrow> (Uncaught f, w1)
                 | Inr w2 \<Rightarrow>
                     (case redis_hincrby (analyticsKey clk (To req)) (resolvedField d) 1 w2 of
                        Inl f \<Rightarrow> (Uncaught f, w2)
                      | Inr w3 \<Rightarrow> (Sent Status200, redis_del key w3))))"

subsection \<open>Sequences of speech events and observations of the store\<close>

text \<open>
  The web server runs one handler per delivered webhook; a sequence of speech events,
  each with its own clock reading, provider behaviour and payload, is the fold of
  \<open>process_speech\<close> over the list, the response of each request being sent away.
\<close>

type_synonym speech_event = "clock \<times> providers \<times> request"

fun speech_events :: "process_env \<Rightarrow> speech_event list \<Rightarrow> world \<Rightarrow> world" where
  "speech_events pe [] w = w"
| "speech_events pe (e # es) w =
     speech_events pe es (snd (process_speech pe (fst e) (fst (snd e)) (snd (snd e)) w))"

text \<open>
  A summary of \<open>process_speech\<close> used in the proofs (lemma \<open>ps_session_cases\<close> shows
  that the handler stays inside it): the sessions one speech event can leave under its
  key, given the session \<open>s\<close> it loaded. These are \<open>s\<close> itself (a rejected await
  before the write), \<open>s\<close> closed by a budget check, \<open>s\<close> with the user turn and
  \<open>HUMAN\<close>, or \<open>s\<close> with the user turn, the assistant turn and the intent filled
  in if it was missing.
\<close>

inductive sessionAfter :: "providers \<Rightarrow> request \<Rightarrow> session \<Rightarrow> session \<Rightarrow> bool"
  for p :: providers and req :: request and s :: session where
  same: "sessionAfter p req s s"
| limit: "sessionAfter p req s (s\<lparr>resolvedBy := ''LIMIT''\<rparr>)"
| time_limit: "sessionAfter p req s (s\<lparr>resolvedBy := ''TIME_LIMIT''\<rparr>)"
| human: "sessionAfter p req s
            (s\<lparr>messages := messages s @ [\<lparr>role = User, content = speechOf req\<rparr>],
               resolvedBy := ''HUMAN''\<rparr>)"
| reply: "(if intentMissing s then chat p 0 (classifyPrompt (speechOf req)) = Some c
           else intent s = Some c) \<Longrightarrow>
          sessionAfter p req s
            (s\<lparr>intent := (if intentMissing s then Some (trim c) else intent s),
               messages := messages s @ [\<lparr>role = User, content = speechOf req\<rparr>,
                                         \<lparr>role = Assistant, content = r\<rparr>]\<rparr>)"

definition sessionAt :: "world \<Rightarrow> string \<Rightarrow> session option" where
  "sessionAt w k = (case kv w k of Some (Str (SessionDoc s x), t) \<Rightarrow> Some s | _ \<Rightarrow> None)"

definition counterAt :: "world \<Rightarrow> string \<Rightarrow> string \<Rightarrow> int" where
  "counterAt w k f =
     (case kv w k of
        Some (Hash h, t) \<Rightarrow> (case h f of None \<Rightarrow> 0 | Some c \<Rightarrow> c)
      | _ \<Rightarrow> 0)"

definition hashOrAbsent :: "world \<Rightarrow> string \<Rightarrow> bool" where
  "hashOrAbsent w k = (case kv w k of Some (Str d, t) \<Rightarrow> False | _ \<Rightarrow> True)"

definition issued :: "world \<Rightarrow> world \<Rightarrow> provider_call list" where
  "issued w w' = drop (length (calls w)) (calls w')"

definition isChatCall :: "provider_call \<Rightarrow> bool" where
  "isChatCall c = (case c of ChatCall t ms \<Rightarrow> True | SpeechCall txt \<Rightarrow> False)"

definition isClassifyCall :: "provider_call \<Rightarrow> bool" where
  "isClassifyCall c = (case c of ChatCall t ms \<Rightarrow> t = 0 | SpeechCall txt \<Rightarrow> False)"

subsection \<open>Concrete scenarios\<close>

definition exEnv :: process_env where
  "exEnv = \<lparr>HUMAN_AGENT_NUMBER = Some ''+15550100'', MAX_CALL_TURNS = Some 20,
            MAX_CALL_DURATION_SEC = Some 900\<rparr>"

definition exClock :: "int \<Rightarrow> clock" where
  "exClock ms = \<lparr>now = ms, nowISO = ''2024-03-05T10:00:00.000Z''\<rparr>"

definition exProvidersReply ::
  "string option \<Rightarrow> string option \<Rightarrow> http_reply option \<Rightarrow> providers" where
  "exProvidersReply label reply answer =
     \<lparr>chat = (\<lambda>t ms. if t = 0 then label else reply), speech = (\<lambda>txt. answer)\<rparr>"

text \<open>Providers whose synthesis, when it answers, answers 200 with the given audio.\<close>

definition exProviders :: "string option \<Rightarrow> string option \<Rightarrow> string option \<Rightarrow> providers" where
  "exProviders label reply audio =
     exProvidersReply label reply
       (case audio of None \<Rightarrow> None | Some bytes \<Rightarrow> Some \<lparr>status = 200, body = bytes\<rparr>)"

definition exRequest :: "jsstr \<Rightarrow> jsstr \<Rightarrow> jsstr \<Rightarrow> request" where
  "exRequest sid tid said = \<lparr>CallSid = sid, To = tid, From = Some ''+15550002'', SpeechResult = said\<rparr>"

definition exSpeech :: "jsstr \<Rightarrow> request" where
  "exSpeech said = exRequest (Some ''CA1'') (Some ''+15550001'') said"

definition exKey :: string where
  "exKey = ''tenant:+15550001:call:session:CA1''"

definition exAnalytics :: string where
  "exAnalytics = ''tenant:+15550001:analytics:daily:2024-03-05''"

definition exSession :: session where
  "exSession =
     \<lparr>callSid = Some ''CA1'', tenantId = Some ''+15550001'', fromAddr = Some ''+15550002'',
      intent = None, startTime = 0, resolvedBy = ''AI'',
      messages = [\<lparr>role = System, content = ''You are an AI receptionist.''\<rparr>]\<rparr>"

definition exPairs :: "nat \<Rightarrow> message list" where
  "exPairs n = concat (replicate n [\<lparr>role = User, content = ''hi''\<rparr>,
                                      \<lparr>role = Assistant, content = ''hello''\<rparr>])"

definition exWorld :: "session \<Rightarrow> world" where
  "exWorld s = \<lparr>kv = [exKey \<mapsto> (Str (SessionDoc s None), Some 3600)],
                 files = Map.empty, calls = []\<rparr>"

definition exFullSession :: session where
  "exFullSession = exSession\<lparr>messages := messages exSession @ exPairs 20\<rparr>"

definition exOk :: providers where
  "exOk = exProviders (Some ''info'') (Some ''Happy to help.'') (Some ''mp3'')"

definition exTenantOff :: tenant_config where
  "exTenantOff =
     \<lparr>businessName = Some ''Acme Dental'', businessHours = Some ''9 AM to 5 PM'',
      humanAgent = Some ''+15550199'', aiStyle = Some ''friendly'',
      enableHumanTransfer = False\<rparr>"

definition exWorldOff :: "session \<Rightarrow> world" where
  "exWorldOff s =
     \<lparr>kv = [exKey \<mapsto> (Str (SessionDoc s None), Some 3600),
            ''tenant:+15550001:config'' \<mapsto> (Str (ConfigDoc exTenantOff None), None)],
      files = Map.empty, calls = []\<rparr>"

definition emptyWorld :: world where
  "emptyWorld = \<lparr>kv = Map.empty, files = Map.empty, calls = []\<rparr>"

section \<open>Properties\<close>

subsection \<open>Keys and frames\<close>

lemma sessionKey_neq_logKey: "sessionKey t s \<noteq> logKey t s'"
  by (simp add: sessionKey_def logKey_def)

lemma sessionKey_neq_analyticsKey: "sessionKey t s \<noteq> analyticsKey c t"
  by (simp add: sessionKey_def analyticsKey_def)

lemma logKey_neq_analyticsKey: "logKey t s \<noteq> analyticsKey c t"
  by (simp add: logKey_def analyticsKey_def)

lemma exSpeech_key: "sessionKey (To (exSpeech said)) (CallSid (exSpeech said)) = exKey"
  by (simp add: sessionKey_def tpl_def exKey_def exSpeech_def exRequest_def)

lemma generateSpeech_kv: "kv (snd (generateSpeech p txt f w)) = kv w"
  by (simp add: generateSpeech_def Let_def split: option.splits)

lemma aiReply_kv_other:
  "k \<noteq> key \<Longrightarrow> kv (snd (aiReply clk p req key u x s w)) k = kv w k"
  by (auto simp add: aiReply_def detectIntent_def generateSpeech_def redis_set_ex_def Let_def
      split: option.splits sum.splits prod.splits if_splits)

lemma process_speech_kv_other:
  "k \<noteq> sessionKey (To req) (CallSid req) \<Longrightarrow>
     kv (snd (process_speech pe clk p req w)) k = kv w k"
  by (auto simp add: process_speech_def aiReply_kv_other redis_set_ex_def Let_def
      split: option.splits sum.splits prod.splits if_splits doc.splits)

subsection \<open>The branches of the speech handler\<close>

lemma sessionAt_set_ex: "sessionAt (redis_set_ex k (SessionDoc s x) n w) k = Some s"
  by (simp add: sessionAt_def redis_set_ex_def)

lemma calls_set_ex: "calls (redis_set_ex k d n w) = calls w"
  by (simp add: redis_set_ex_def)

lemma ps_limit:
  assumes "kv w (sessionKey (To req) (CallSid req)) = Some (Str (SessionDoc s x), t)"
    and "overTurns pe s"
  shows "process_speech pe clk p req w =
           (Sent (Say ''This call has reached its maximum length. Thank you.''),
            redis_set_ex (sessionKey (To req) (CallSid req))
              (SessionDoc (s\<lparr>resolvedBy := ''LIMIT''\<rparr>) x) 3600 w)"
  using assms by (simp add: process_speech_def redis_get_def)

lemma ps_time:
  assumes "kv w (sessionKey (To req) (CallSid req)) = Some (Str (SessionDoc s x), t)"
    and "\<not> overTurns pe s" and "overTime pe clk s"
  shows "process_speech pe clk p req w =
           (Sent (Say ''This call has timed out. Thank you.''),
            redis_set_ex (sessionKey (To req) (CallSid req))
              (SessionDoc (s\<lparr>resolvedBy := ''TIME_LIMIT''\<rparr>) x) 3600 w)"
  using assms by (simp add: process_speech_def redis_get_def)

lemma ps_human:
  assumes "kv w (sessionKey (To req) (CallSid req)) = Some (Str (SessionDoc s x), t)"
    and "\<not> overTurns pe s" and "\<not> overTime pe clk s"
    and "getTenantConfig pe w (To req) = Inr tenant"
    and "wantsHuman tenant (toLowerCase (speechOf req))"
  shows "process_speech pe clk p req w =
           (Sent (PlayDial (tpl (humanAgent tenant))),
            redis_set_ex (sessionKey (To req) (CallSid req))
              (SessionDoc (s\<lparr>messages := messages s @ [\<lparr>role = User, content = speechOf req\<rparr>],
                            resolvedBy := ''HUMAN''\<rparr>) x) 3600 w)"
  using assms by (simp add: process_speech_def redis_get_def Let_def)

lemma ps_ai:
  assumes "kv w (sessionKey (To req) (CallSid req)) = Some (Str (SessionDoc s x), t)"
    and "\<not> overTurns pe s" and "\<not> overTime pe clk s"
    and "getTenantConfig pe w (To req) = Inr tenant"
    and "\<not> wantsHuman tenant (toLowerCase (speechOf req))"
  shows "process_speech pe clk p req w =
           aiReply clk p req (sessionKey (To req) (CallSid req)) (speechOf req) x
             (s\<lparr>messages := messages s @ [\<lparr>role = User, content = speechOf req\<rparr>]\<rparr>) w"
  using assms by (simp add: process_speech_def redis_get_def Let_def)

lemma overTime_iff: "overTime pe clk s \<longleftrightarrow> maxCallDurationSec pe * 1000 < of_int (now clk - startTime s)"
  by (simp add: overTime_def pos_less_divide_eq)

lemma overTurns_iff: "overTurns pe s \<longleftrightarrow> maxCallTurns pe * 2 < of_nat (length (messages s))"
  by (simp add: overTurns_def pos_less_divide_eq)

lemma aiReply_not_dial: "fst (aiReply clk p req key u x s w) \<noteq> Sent (PlayDial a)"
  by (auto simp add: aiReply_def detectIntent_def generateSpeech_def Let_def
      split: option.splits sum.splits prod.splits if_splits)

lemma aiReply_resolvedBy:
  assumes "kv w key = Some (Str (SessionDoc s0 x0), t)" and "resolvedBy s = resolvedBy s0"
  shows "map_option resolvedBy (sessionAt (snd (aiReply clk p req key u x s w)) key) = Some (resolvedBy s0)"
  using assms
  by (auto simp add: aiReply_def detectIntent_def generateSpeech_def redis_set_ex_def sessionAt_def Let_def
      split: option.splits sum.splits prod.splits if_splits)

lemma wantsHuman_iff:
  "wantsHuman tenant lower \<longleftrightarrow>
     enableHumanTransfer tenant \<and> (\<exists>k \<in> set [''human'', ''agent'', ''person'', ''operator'']. includes_str lower k)"
  by (simp add: wantsHuman_def transferKeywords_def)




subsection \<open>One speech event, seen from the stored session\<close>

lemma sessionAt_kv_cong: "kv w' k = kv w k \<Longrightarrow> sessionAt w' k = sessionAt w k"
  by (simp add: sessionAt_def)

lemma sessionAt_SomeD:
  "sessionAt w k = Some s \<Longrightarrow> \<exists>x t. kv w k = Some (Str (SessionDoc s x), t)"
  by (auto simp add: sessionAt_def split: option.splits rval.splits doc.splits)

lemma ps_tenant_fails:
  assumes "kv w (sessionKey (To req) (CallSid req)) = Some (Str (SessionDoc s x), t)"
    and "\<not> overTurns pe s" and "\<not> overTime pe clk s"
    and "getTenantConfig pe w (To req) = Inl f"
  shows "process_speech pe clk p req w = (Uncaught f, w)"
  using assms by (simp add: process_speech_def redis_get_def Let_def)

lemma detectIntent_Inl:
  "detectIntent p u s w = Inl (f, w1) \<Longrightarrow> kv w1 = kv w"
  by (auto simp add: detectIntent_def Let_def split: if_splits option.splits)

lemma detectIntent_Inr:
  "detectIntent p u s w = Inr (s1, w1) \<Longrightarrow>
     kv w1 = kv w \<and>
     (\<exists>c. (if intentMissing s then chat p 0 (classifyPrompt u) = Some c else intent s = Some c)
        \<and> s1 = s\<lparr>intent := (if intentMissing s then Some (trim c) else intent s)\<rparr>)"
  by (auto simp add: detectIntent_def intentMissing_def Let_def split: if_splits option.splits)

lemma aiReply_session:
  assumes "kv w key = Some (Str (SessionDoc s0 x), t)"
  shows "sessionAt (snd (aiReply clk p req key u x s w)) key = Some s0
       \<or> (\<exists>r c. (if intentMissing s then chat p 0 (classifyPrompt u) = Some c else intent s = Some c)
            \<and> sessionAt (snd (aiReply clk p req key u x s w)) key =
                Some (s\<lparr>intent := (if intentMissing s then Some (trim c) else intent s),
                        messages := messages s @ [\<lparr>role = Assistant, content = r\<rparr>]\<rparr>))"
proof (cases "detectIntent p u s w")
  case (Inl a)
  obtain f w1 where a: "a = (f, w1)" by (cases a)
  from detectIntent_Inl [OF Inl [unfolded a]] have "kv w1 = kv w" .
  then have "sessionAt (snd (aiReply clk p req key u x s w)) key = Some s0"
    using assms by (simp add: aiReply_def Inl a sessionAt_def)
  then show ?thesis ..
next
  case (Inr b)
  obtain s1 w1 where b: "b = (s1, w1)" by (cases b)
  from detectIntent_Inr [OF Inr [unfolded b]] obtain c where kv1: "kv w1 = kv w"
    and c: "if intentMissing s then chat p 0 (classifyPrompt u) = Some c else intent s = Some c"
    and s1: "s1 = s\<lparr>intent := (if intentMissing s then Some (trim c) else intent s)\<rparr>"
    by blast
  show ?thesis
  proof (cases "chat p (3 / 10) (messages s1)")
    case None
    then have "sessionAt (snd (aiReply clk p req key u x s w)) key = Some s0"
      using assms kv1 by (simp add: aiReply_def Inr b sessionAt_def Let_def)
    then show ?thesis ..
  next
    case (Some r)
    have "sessionAt (snd (aiReply clk p req key u x s w)) key =
            Some (s1\<lparr>messages := messages s1 @ [\<lparr>role = Assistant, content = r\<rparr>]\<rparr>)"
      using Some
      by (simp add: aiReply_def Inr b Let_def generateSpeech_def redis_set_ex_def sessionAt_def
          split: option.splits)
    then have "sessionAt (snd (aiReply clk p req key u x s w)) key =
            Some (s\<lparr>intent := (if intentMissing s then Some (trim c) else intent s),
                    messages := messages s @ [\<lparr>role = Assistant, content = r\<rparr>]\<rparr>)"
      unfolding s1 by simp
    with c show ?thesis by blast
  qed
qed

lemma ps_session_cases:
  assumes "sessionAt w (sessionKey (To req) (CallSid req)) = Some s"
  shows "\<exists>s'. sessionAt (snd (process_speech pe clk p req w)) (sessionKey (To req) (CallSid req)) = Some s'
      \<and> sessionAfter p req s s'"
proof -
  let ?key = "sessionKey (To req) (CallSid req)"
  from sessionAt_SomeD [OF assms] obtain x t where k: "kv w ?key = Some (Str (SessionDoc s x), t)"
    by blast
  show ?thesis
  proof (cases "overTurns pe s")
    case True
    show ?thesis unfolding ps_limit [OF k True] snd_conv sessionAt_set_ex
      using sessionAfter.limit by blast
  next
    case nt: False
    show ?thesis
    proof (cases "overTime pe clk s")
      case True
      show ?thesis unfolding ps_time [OF k nt True] snd_conv sessionAt_set_ex
        using sessionAfter.time_limit by blast
    next
      case nd: False
      show ?thesis
      proof (cases "getTenantConfig pe w (To req)")
        case (Inl f)
        show ?thesis unfolding ps_tenant_fails [OF k nt nd Inl] snd_conv
          using assms sessionAfter.same by blast
      next
        case (Inr tenant)
        show ?thesis
        proof (cases "wantsHuman tenant (toLowerCase (speechOf req))")
          case True
          show ?thesis unfolding ps_human [OF k nt nd Inr True] snd_conv sessionAt_set_ex
            using sessionAfter.human by blast
        next
          case False
          let ?s1 = "s\<lparr>messages := messages s @ [\<lparr>role = User, content = speechOf req\<rparr>]\<rparr>"
          have im: "intentMissing ?s1 = intentMissing s" by (simp add: intentMissing_def)
          have iv: "intent ?s1 = intent s" by simp
          have eq: "\<And>r v. ?s1\<lparr>intent := v, messages := messages ?s1 @ [\<lparr>role = Assistant, content = r\<rparr>]\<rparr>
                = s\<lparr>intent := v, messages := messages s @ [\<lparr>role = User, content = speechOf req\<rparr>,
                                                   \<lparr>role = Assistant, content = r\<rparr>]\<rparr>"
            by simp
          from aiReply_session [OF k, of clk p req "speechOf req" ?s1]
          have "sessionAt (snd (process_speech pe clk p req w)) ?key = Some s
             \<or> (\<exists>r c. (if intentMissing s then chat p 0 (classifyPrompt (speechOf req)) = Some c
                        else intent s = Some c)
                 \<and> sessionAt (snd (process_speech pe clk p req w)) ?key =
                 Some (s\<lparr>intent := (if intentMissing s then Some (trim c) else intent s),
                         messages := messages s @ [\<lparr>role = User, content = speechOf req\<rparr>,
                                                   \<lparr>role = Assistant, content = r\<rparr>]\<rparr>))"
            unfolding ps_ai [OF k nt nd Inr False] im iv eq .
          then show ?thesis
          proof (elim disjE exE conjE)
            assume "sessionAt (snd (process_speech pe clk p req w)) ?key = Some s"
            then show ?thesis using sessionAfter.same by blast
          next
            fix r c
            assume c: "if intentMissing s then chat p 0 (classifyPrompt (speechOf req)) = Some c
                        else intent s = Some c"
              and st: "sessionAt (snd (process_speech pe clk p req w)) ?key =
                 Some (s\<lparr>intent := (if intentMissing s then Some (trim c) else intent s),
                         messages := messages s @ [\<lparr>role = User, content = speechOf req\<rparr>,
                                                   \<lparr>role = Assistant, content = r\<rparr>]\<rparr>)"
            from sessionAfter.reply [of s p req c r, OF c] st show ?thesis by blast
          qed
        qed
      qed
    qed
  qed
qed

lemma sessionAfter_intent:
  "sessionAfter p req s s' \<Longrightarrow> \<not> intentMissing s \<Longrightarrow> intent s' = intent s"
  by (erule sessionAfter.cases) simp_all

lemma ps_intent_step:
  assumes "sessionAt w k = Some s" and "intent s = Some i" and "i \<noteq> []"
  shows "\<exists>s'. sessionAt (snd (process_speech pe clk p req w)) k = Some s' \<and> intent s' = Some i"
proof (cases "k = sessionKey (To req) (CallSid req)")
  case True
  have nm: "\<not> intentMissing s" using assms(2,3) by (simp add: intentMissing_def)
  from ps_session_cases [OF assms(1) [unfolded True], of pe clk p]
  obtain s' where s': "sessionAt (snd (process_speech pe clk p req w)) (sessionKey (To req) (CallSid req)) = Some s'"
    and cs: "sessionAfter p req s s'"
    by blast
  from sessionAfter_intent [OF cs nm] s' assms(2) show ?thesis unfolding True by simp
next
  case False
  have "sessionAt (snd (process_speech pe clk p req w)) k = sessionAt w k"
    by (rule sessionAt_kv_cong) (rule process_speech_kv_other [OF False])
  with assms(1,2) show ?thesis by simp
qed

lemma speech_events_intent:
  assumes "sessionAt w k = Some s" and "intent s = Some i" and "i \<noteq> []"
  shows "\<exists>s'. sessionAt (speech_events pe es w) k = Some s' \<and> intent s' = Some i"
  using assms
proof (induction es arbitrary: w s)
  case Nil
  then show ?case by simp
next
  case (Cons e es)
  from ps_intent_step [OF Cons.prems, of pe "fst e" "fst (snd e)" "snd (snd e)"]
  obtain s1 where "sessionAt (snd (process_speech pe (fst e) (fst (snd e)) (snd (snd e)) w)) k = Some s1"
    and "intent s1 = Some i" by blast
  from Cons.IH [OF this Cons.prems(3)] show ?case by simp
qed

lemma sessionAfter_new_intent:
  "sessionAfter p req s s' \<Longrightarrow> intent s' \<noteq> intent s \<Longrightarrow>
     \<exists>c. chat p 0 (classifyPrompt (speechOf req)) = Some c \<and> intent s' = Some (trim c)"
  by (erule sessionAfter.cases) (simp_all split: if_splits)

lemma issued_same: "issued w w = []"
  by (simp add: issued_def)

lemma issued_set_ex: "issued w (redis_set_ex k d n w) = []"
  by (simp add: issued_def redis_set_ex_def)

lemma aiReply_classify:
  "list_ex isClassifyCall (issued w (snd (aiReply clk p req key u x s w))) \<Longrightarrow> intentMissing s"
  by (auto simp add: aiReply_def detectIntent_def generateSpeech_def redis_set_ex_def issued_def
      isClassifyCall_def Let_def split: option.splits if_splits)

lemma ps_not_session:
  "sessionAt w (sessionKey (To req) (CallSid req)) = None \<Longrightarrow>
     snd (process_speech pe clk p req w) = w"
  by (auto simp add: process_speech_def redis_get_def sessionAt_def Let_def
      split: option.splits rval.splits doc.splits)

lemma ps_classify:
  assumes "list_ex isClassifyCall (issued w (snd (process_speech pe clk p req w)))"
  shows "\<exists>s. sessionAt w (sessionKey (To req) (CallSid req)) = Some s \<and> intentMissing s"
proof (cases "sessionAt w (sessionKey (To req) (CallSid req))")
  case None
  from assms show ?thesis unfolding ps_not_session [OF None] issued_same by simp
next
  case (Some s)
  let ?key = "sessionKey (To req) (CallSid req)"
  from sessionAt_SomeD [OF Some] obtain x t where k: "kv w ?key = Some (Str (SessionDoc s x), t)"
    by blast
  have "intentMissing s"
  proof (cases "overTurns pe s")
    case True
    from assms show ?thesis unfolding ps_limit [OF k True] snd_conv issued_set_ex by simp
  next
    case nt: False
    show ?thesis
    proof (cases "overTime pe clk s")
      case True
      from assms show ?thesis unfolding ps_time [OF k nt True] snd_conv issued_set_ex by simp
    next
      case nd: False
      show ?thesis
      proof (cases "getTenantConfig pe w (To req)")
        case (Inl f)
        from assms show ?thesis unfolding ps_tenant_fails [OF k nt nd Inl] snd_conv issued_same by simp
      next
        case (Inr tenant)
        show ?thesis
        proof (cases "wantsHuman tenant (toLowerCase (speechOf req))")
          case True
          from assms show ?thesis unfolding ps_human [OF k nt nd Inr True] snd_conv issued_set_ex by simp
        next
          case False
          from assms have "intentMissing (s\<lparr>messages := messages s @ [\<lparr>role = User, content = speechOf req\<rparr>]\<rparr>)"
            unfolding ps_ai [OF k nt nd Inr False] by (rule aiReply_classify)
          then show ?thesis by (simp add: intentMissing_def)
        qed
      qed
    qed
  qed
  with Some show ?thesis by simp
qed

subsection \<open>Sessions closed by a budget check\<close>

lemma overTime_mono:
  "overTime pe clk0 s \<Longrightarrow> now clk0 \<le> now clk \<Longrightarrow> overTime pe clk s"
  unfolding overTime_iff by (erule less_le_trans) simp

lemma ps_closed_step:
  assumes "sessionAt w k = Some s"
    and "overTurns pe s \<or> overTime pe clk0 s"
    and "resolvedBy s = (if overTurns pe s then ''LIMIT'' else ''TIME_LIMIT'')"
    and "now clk0 \<le> now clk"
  shows "sessionAt (snd (process_speech pe clk p req w)) k = Some s"
proof (cases "k = sessionKey (To req) (CallSid req)")
  case True
  from sessionAt_SomeD [OF assms(1)] obtain x t
    where k: "kv w (sessionKey (To req) (CallSid req)) = Some (Str (SessionDoc s x), t)"
    unfolding True by blast
  show ?thesis
  proof (cases "overTurns pe s")
    case ot: True
    have "s\<lparr>resolvedBy := ''LIMIT''\<rparr> = s" using assms(3) ot by simp
    then show ?thesis unfolding True ps_limit [OF k ot] snd_conv sessionAt_set_ex by simp
  next
    case nt: False
    with assms(2) have "overTime pe clk0 s" by blast
    from overTime_mono [OF this assms(4)] have od: "overTime pe clk s" .
    have "s\<lparr>resolvedBy := ''TIME_LIMIT''\<rparr> = s" using assms(3) nt by simp
    then show ?thesis unfolding True ps_time [OF k nt od] snd_conv sessionAt_set_ex by simp
  qed
next
  case False
  have "sessionAt (snd (process_speech pe clk p req w)) k = sessionAt w k"
    by (rule sessionAt_kv_cong) (rule process_speech_kv_other [OF False])
  with assms(1) show ?thesis by simp
qed

lemma speech_events_closed:
  assumes "sessionAt w k = Some s"
    and "overTurns pe s \<or> overTime pe clk0 s"
    and "resolvedBy s = (if overTurns pe s then ''LIMIT'' else ''TIME_LIMIT'')"
    and "\<forall>e \<in> set es. now clk0 \<le> now (fst e)"
  shows "sessionAt (speech_events pe es w) k = Some s"
  using assms(1,4)
proof (induction es arbitrary: w)
  case Nil
  then show ?case by simp
next
  case (Cons e es)
  from Cons.prems(2) have le: "now clk0 \<le> now (fst e)" and rest: "\<forall>e \<in> set es. now clk0 \<le> now (fst e)"
    by simp_all
  from ps_closed_step [OF Cons.prems(1) assms(2) assms(3) le]
  have "sessionAt (snd (process_speech pe (fst e) (fst (snd e)) (snd (snd e)) w)) k = Some s" .
  from Cons.IH [OF this rest] show ?case by simp
qed

subsection \<open>Call ended and incoming call\<close>

lemma ce_step:
  assumes "kv w (sessionKey (To req) (CallSid req)) = Some (Str (SessionDoc s x), t)"
    and "hashOrAbsent w (analyticsKey clk (To req))"
  shows "fst (call_ended clk req w) = Sent Status200"
    and "kv (snd (call_ended clk req w)) (sessionKey (To req) (CallSid req)) = None"
    and "counterAt (snd (call_ended clk req w)) (analyticsKey clk (To req)) f =
           counterAt w (analyticsKey clk (To req)) f
             + (if f = ''total_calls'' then 1 else 0)
             + (if f = ''resolved_'' @ resolvedBy s then 1 else 0)"
proof -
  let ?key = "sessionKey (To req) (CallSid req)"
  let ?log = "logKey (To req) (CallSid req)"
  let ?a = "analyticsKey clk (To req)"
  have d1: "?log \<noteq> ?a" by (rule logKey_neq_analyticsKey)
  have d2: "?key \<noteq> ?a" by (rule sessionKey_neq_analyticsKey)
  have d3: "?key \<noteq> ?log" by (rule sessionKey_neq_logKey)
  note d4 = d1 [symmetric] and d5 = d2 [symmetric] and d6 = d3 [symmetric]
  note defs = call_ended_def redis_get_def redis_set_def redis_hincrby_def redis_del_def
    counterAt_def hashOrAbsent_def resolvedField_def Let_def
  show "fst (call_ended clk req w) = Sent Status200"
    using assms d1 d2 d3 d4 d5 d6
    by (auto simp add: defs split: option.splits rval.splits)
  show "kv (snd (call_ended clk req w)) ?key = None"
    using assms d1 d2 d3 d4 d5 d6
    by (auto simp add: defs split: option.splits rval.splits)
  show "counterAt (snd (call_ended clk req w)) ?a f =
           counterAt w ?a f
             + (if f = ''total_calls'' then 1 else 0)
             + (if f = ''resolved_'' @ resolvedBy s then 1 else 0)"
    using assms d1 d2 d3 d4 d5 d6
    by (auto simp add: defs split: option.splits rval.splits)
qed

lemma ce_absent:
  "kv w (sessionKey (To req) (CallSid req)) = None \<Longrightarrow> call_ended clk req w = (Sent Status200, w)"
  by (simp add: call_ended_def redis_get_def)

lemma incoming_call_kv:
  assumes "getTenantConfig pe w (To req) = Inr tenant"
  shows "kv (snd (incoming_call pe clk p req w)) =
           (kv w)(sessionKey (To req) (CallSid req) \<mapsto>
                    (Str (SessionDoc (newSession clk req tenant) None), Some 3600))"
  using assms
  by (simp add: incoming_call_def generateSpeech_def redis_set_ex_def Let_def split: option.splits)

lemma hashOrAbsent_cong: "kv w' k = kv w k \<Longrightarrow> hashOrAbsent w' k = hashOrAbsent w k"
  by (simp add: hashOrAbsent_def)

lemma counterAt_cong: "kv w' k = kv w k \<Longrightarrow> counterAt w' k f = counterAt w k f"
  by (simp add: counterAt_def)

lemma tpl_tpl: "tpl (Some (tpl v)) = tpl v"
  by (simp add: tpl_def)

lemma sessionKey_tpl: "sessionKey (Some (tpl a)) (Some (tpl b)) = sessionKey a b"
  by (simp add: sessionKey_def tpl_tpl)

lemma logKey_tpl: "logKey (Some (tpl a)) (Some (tpl b)) = logKey a b"
  by (simp add: logKey_def tpl_tpl)

lemma analyticsKey_tpl: "analyticsKey clk (Some (tpl a)) = analyticsKey clk a"
  by (simp add: analyticsKey_def tpl_tpl)

lemma getTenantConfig_tpl: "getTenantConfig pe w (Some (tpl a)) = getTenantConfig pe w a"
  by (simp add: getTenantConfig_def tenantKey_def tpl_tpl)

lemma speechOf_ids: "speechOf (req\<lparr>CallSid := a, To := b\<rparr>) = speechOf req"
  by (simp add: speechOf_def)

lemma aiReply_tpl:
  "aiReply clk p (req\<lparr>CallSid := Some (tpl (CallSid req)), To := b\<rparr>) key u x s w
     = aiReply clk p req key u x s w"
  by (simp add: aiReply_def Let_def tpl_tpl split: sum.splits option.splits prod.splits)

subsection \<open>Facts about the concrete scenarios\<close>

lemma exAnalytics_eq: "analyticsKey (exClock n) (To (exRequest sid (Some ''+15550001'') said)) = exAnalytics"
  by (simp add: analyticsKey_def exClock_def tpl_def exRequest_def exAnalytics_def)

lemma exRequest_key: "sessionKey (To (exRequest (Some ''CA1'') (Some ''+15550001'') said))
    (CallSid (exRequest (Some ''CA1'') (Some ''+15550001'') said)) = exKey"
  by (simp add: sessionKey_def tpl_def exKey_def exRequest_def)

lemma emptyWorld_tenant: "getTenantConfig exEnv emptyWorld tid = Inr (defaultTenant exEnv)"
  by (simp add: getTenantConfig_def redis_get_def emptyWorld_def)


lemma exPairs_length: "length (exPairs n) = 2 * n"
  by (induction n) (simp_all add: exPairs_def)

lemma exFull_length: "length (messages exFullSession) = 41"
  by (simp add: exFullSession_def exSession_def exPairs_length)

lemma exFull_overTurns: "overTurns exEnv exFullSession"
  by (simp add: overTurns_iff exFull_length maxCallTurns_def exEnv_def)

lemma exSession_not_overTurns: "\<not> overTurns exEnv exSession"
  by (simp add: overTurns_iff exSession_def maxCallTurns_def exEnv_def)

lemma exWorld_key: "kv (exWorld s) (sessionKey (To (exSpeech said)) (CallSid (exSpeech said)))
   = Some (Str (SessionDoc s None), Some 3600)"
  by (simp add: exSpeech_key exWorld_def)

lemma exWorldOff_key: "kv (exWorldOff s) (sessionKey (To (exSpeech said)) (CallSid (exSpeech said)))
   = Some (Str (SessionDoc s None), Some 3600)"
  by (simp add: exSpeech_key exWorldOff_def exKey_def)

lemma exEnv_limits: "maxCallTurns exEnv = 20" "maxCallDurationSec exEnv = 900"
  by (simp_all add: maxCallTurns_def maxCallDurationSec_def exEnv_def)

lemma exTenant_default:
  "getTenantConfig exEnv (exWorld s) (To (exSpeech said)) = Inr (defaultTenant exEnv)"
  by (simp add: getTenantConfig_def redis_get_def tenantKey_def tpl_def exSpeech_def
      exRequest_def exWorld_def exKey_def)

lemma exTenant_off:
  "getTenantConfig exEnv (exWorldOff s) (To (exSpeech said)) = Inr exTenantOff"
  by (simp add: getTenantConfig_def redis_get_def tenantKey_def tpl_def exSpeech_def
      exRequest_def exWorldOff_def exKey_def parseTenant_def)

lemma exSession_not_overTime: "\<not> overTime exEnv (exClock 60000) exSession"
  by (simp add: overTime_iff exEnv_limits exClock_def exSession_def)

lemma human_said: "includes_str (toLowerCase (speechOf (exSpeech (Some ''I want to talk to a HUMAN'')))) ''human''"
  by code_simp

lemma hello_said: "\<not> wantsHuman tenant (toLowerCase (speechOf (exSpeech (Some ''hello''))))"
proof -
  have a: "toLowerCase (speechOf (exSpeech (Some ''hello''))) = ''hello''" by code_simp
  have b: "\<not> list_ex (\<lambda>k. includes_str ''hello'' k) transferKeywords" by code_simp
  show ?thesis unfolding wantsHuman_def a using b by blast
qed

subsection \<open>Unknown sessions\<close>

text \<open>
  C8. A speech event or a termination event whose session key holds nothing is answered
  with the bare status 200 and leaves the whole world as it was: no key is written or
  deleted, no counter is incremented, no file is written and no provider is called.
\<close>

theorem unknown_session_noop:
  "kv w (sessionKey (To req) (CallSid req)) = None \<Longrightarrow>
     process_speech pe clk p req w = (Sent Status200, w) \<and>
     call_ended clk' req w = (Sent Status200, w)"
  by (simp add: process_speech_def call_ended_def redis_get_def)

theorem unknown_session_noop_witness:
  "kv emptyWorld (sessionKey (To (exSpeech (Some ''hello''))) (CallSid (exSpeech (Some ''hello'')))) = None \<and>
   process_speech exEnv (exClock 5000) (exProviders (Some ''info'') (Some ''Hi'') (Some ''mp3''))
     (exSpeech (Some ''hello'')) emptyWorld = (Sent Status200, emptyWorld) \<and>
   call_ended (exClock 6000) (exSpeech (Some ''hello'')) emptyWorld = (Sent Status200, emptyWorld)"
  using unknown_session_noop [of emptyWorld "exSpeech (Some ''hello'')" exEnv "exClock 5000"
      "exProviders (Some ''info'') (Some ''Hi'') (Some ''mp3'')" "exClock 6000"]
  by (simp add: emptyWorld_def)

subsection \<open>Turn budget\<close>

text \<open>
  C3. With the limit of 20 turns, a speech event that finds the system turn and 20
  user/assistant pairs stored (41 messages) is answered with the maximum-length
  sentence; the session is written back with \<open>resolvedBy = LIMIT\<close> and otherwise
  unchanged, so no turn is appended, and no provider call is issued.
\<close>

theorem turn_budget_limit:
  assumes "kv w (sessionKey (To req) (CallSid req)) = Some (Str (SessionDoc s x), t)"
    and "maxCallTurns pe = 20"
    and "length (messages s) = 1 + 2 * 20"
  shows "process_speech pe clk p req w =
           (Sent (Say ''This call has reached its maximum length. Thank you.''),
            w\<lparr>kv := (kv w)(sessionKey (To req) (CallSid req) \<mapsto>
                      (Str (SessionDoc (s\<lparr>resolvedBy := ''LIMIT''\<rparr>) x), Some 3600))\<rparr>)
         \<and> sessionAt (snd (process_speech pe clk p req w)) (sessionKey (To req) (CallSid req))
             = Some (s\<lparr>resolvedBy := ''LIMIT''\<rparr>)
         \<and> calls (snd (process_speech pe clk p req w)) = calls w"
  using assms
  by (simp add: process_speech_def redis_get_def overTurns_def redis_set_ex_def sessionAt_def)

theorem turn_budget_limit_witness:
  "kv (exWorld exFullSession)
      (sessionKey (To (exSpeech (Some ''one more''))) (CallSid (exSpeech (Some ''one more''))))
     = Some (Str (SessionDoc exFullSession None), Some 3600)
   \<and> maxCallTurns exEnv = 20
   \<and> length (messages exFullSession) = 1 + 2 * 20
   \<and> fst (process_speech exEnv (exClock 60000) exOk (exSpeech (Some ''one more'')) (exWorld exFullSession))
     = Sent (Say ''This call has reached its maximum length. Thank you.'')
   \<and> map_option resolvedBy (sessionAt (snd (process_speech exEnv (exClock 60000) exOk
        (exSpeech (Some ''one more'')) (exWorld exFullSession))) exKey) = Some ''LIMIT''
   \<and> calls (snd (process_speech exEnv (exClock 60000) exOk
        (exSpeech (Some ''one more'')) (exWorld exFullSession))) = []"
proof -
  have l: "length (messages exFullSession) = 1 + 2 * 20" by (simp add: exFull_length)
  note r = turn_budget_limit [OF exWorld_key [of exFullSession "Some ''one more''"] exEnv_limits(1) l,
      where clk = "exClock 60000" and p = exOk]
  have a: "fst (process_speech exEnv (exClock 60000) exOk (exSpeech (Some ''one more'')) (exWorld exFullSession))
     = Sent (Say ''This call has reached its maximum length. Thank you.'')"
    using r [THEN conjunct1] by simp
  have b: "map_option resolvedBy (sessionAt (snd (process_speech exEnv (exClock 60000) exOk
        (exSpeech (Some ''one more'')) (exWorld exFullSession))) exKey) = Some ''LIMIT''"
    using r [THEN conjunct2, THEN conjunct1] by (simp add: exSpeech_key)
  have c: "calls (snd (process_speech exEnv (exClock 60000) exOk
        (exSpeech (Some ''one more'')) (exWorld exFullSession))) = []"
    using r [THEN conjunct2, THEN conjunct2] by (simp add: exWorld_def)
  show ?thesis using exWorld_key exEnv_limits(1) l a b c by blast
qed

subsection \<open>Time budget\<close>

text \<open>
  C4 (amended). With the limit of 900 seconds, a speech event that arrives more than
  900 seconds after \<open>startTime\<close> on a session that is within the turn budget is answered
  with the timed-out sentence; the session is written back with
  \<open>resolvedBy = TIME_LIMIT\<close> and otherwise unchanged, and no provider call is issued.
\<close>

theorem time_budget_limit:
  assumes "kv w (sessionKey (To req) (CallSid req)) = Some (Str (SessionDoc s x), t)"
    and "maxCallDurationSec pe = 900"
    and "\<not> overTurns pe s"
    and "900 * 1000 < now clk - startTime s"
  shows "process_speech pe clk p req w =
           (Sent (Say ''This call has timed out. Thank you.''),
            w\<lparr>kv := (kv w)(sessionKey (To req) (CallSid req) \<mapsto>
                      (Str (SessionDoc (s\<lparr>resolvedBy := ''TIME_LIMIT''\<rparr>) x), Some 3600))\<rparr>)
         \<and> sessionAt (snd (process_speech pe clk p req w)) (sessionKey (To req) (CallSid req))
             = Some (s\<lparr>resolvedBy := ''TIME_LIMIT''\<rparr>)
         \<and> calls (snd (process_speech pe clk p req w)) = calls w"
proof -
  have "overTime pe clk s"
    using assms(2,4) by (simp add: overTime_iff)
  from ps_time [OF assms(1) assms(3) this] show ?thesis
    by (simp add: sessionAt_set_ex calls_set_ex) (simp add: redis_set_ex_def)
qed

theorem time_budget_limit_witness:
  "kv (exWorld exSession)
      (sessionKey (To (exSpeech (Some ''still there?''))) (CallSid (exSpeech (Some ''still there?''))))
     = Some (Str (SessionDoc exSession None), Some 3600)
   \<and> maxCallDurationSec exEnv = 900
   \<and> \<not> overTurns exEnv exSession
   \<and> 900 * 1000 < now (exClock 901000) - startTime exSession
   \<and> fst (process_speech exEnv (exClock 901000) exOk (exSpeech (Some ''still there?'')) (exWorld exSession))
     = Sent (Say ''This call has timed out. Thank you.'')
   \<and> sessionAt (snd (process_speech exEnv (exClock 901000) exOk
        (exSpeech (Some ''still there?'')) (exWorld exSession))) exKey
     = Some (exSession\<lparr>resolvedBy := ''TIME_LIMIT''\<rparr>)
   \<and> calls (snd (process_speech exEnv (exClock 901000) exOk
        (exSpeech (Some ''still there?'')) (exWorld exSession))) = []"
proof -
  have l: "900 * 1000 < now (exClock 901000) - startTime exSession"
    by (simp add: exClock_def exSession_def)
  note r = time_budget_limit [OF exWorld_key [of exSession "Some ''still there?''"] exEnv_limits(2)
      exSession_not_overTurns l, where p = exOk]
  have a: "fst (process_speech exEnv (exClock 901000) exOk (exSpeech (Some ''still there?'')) (exWorld exSession))
     = Sent (Say ''This call has timed out. Thank you.'')"
    using r [THEN conjunct1] by simp
  have b: "sessionAt (snd (process_speech exEnv (exClock 901000) exOk
        (exSpeech (Some ''still there?'')) (exWorld exSession))) exKey
     = Some (exSession\<lparr>resolvedBy := ''TIME_LIMIT''\<rparr>)"
    using r [THEN conjunct2, THEN conjunct1] by (simp add: exSpeech_key)
  have c: "calls (snd (process_speech exEnv (exClock 901000) exOk
        (exSpeech (Some ''still there?'')) (exWorld exSession))) = []"
    using r [THEN conjunct2, THEN conjunct2] by (simp add: exWorld_def)
  show ?thesis using exWorld_key exEnv_limits(2) exSession_not_overTurns l a b c by blast
qed

text \<open>
  The claim without the turn-budget proviso fails: on a session that already holds 41
  messages, an event 901 seconds after \<open>startTime\<close> takes the turn-budget branch, which
  is checked first, and stores \<open>LIMIT\<close>.
\<close>

theorem time_budget_counterexample:
  "900 * 1000 < now (exClock 901000) - startTime exFullSession
   \<and> maxCallDurationSec exEnv = 900
   \<and> kv (exWorld exFullSession) exKey = Some (Str (SessionDoc exFullSession None), Some 3600)
   \<and> fst (process_speech exEnv (exClock 901000) exOk (exSpeech (Some ''hello'')) (exWorld exFullSession))
       = Sent (Say ''This call has reached its maximum length. Thank you.'')
   \<and> map_option resolvedBy (sessionAt (snd (process_speech exEnv (exClock 901000) exOk
        (exSpeech (Some ''hello'')) (exWorld exFullSession))) exKey) = Some ''LIMIT''
   \<and> map_option resolvedBy (sessionAt (snd (process_speech exEnv (exClock 901000) exOk
        (exSpeech (Some ''hello'')) (exWorld exFullSession))) exKey) \<noteq> Some ''TIME_LIMIT''"
proof -
  have l: "900 * 1000 < now (exClock 901000) - startTime exFullSession"
    by (simp add: exClock_def exSession_def exFullSession_def)
  have k: "kv (exWorld exFullSession) exKey = Some (Str (SessionDoc exFullSession None), Some 3600)"
    by (simp add: exWorld_def)
  note r = ps_limit [OF exWorld_key [of exFullSession "Some ''hello''"] exFull_overTurns,
      where clk = "exClock 901000" and p = exOk]
  have a: "fst (process_speech exEnv (exClock 901000) exOk (exSpeech (Some ''hello'')) (exWorld exFullSession))
       = Sent (Say ''This call has reached its maximum length. Thank you.'')"
    by (simp add: r)
  have b: "map_option resolvedBy (sessionAt (snd (process_speech exEnv (exClock 901000) exOk
        (exSpeech (Some ''hello'')) (exWorld exFullSession))) exKey) = Some ''LIMIT''"
    by (simp add: r exSpeech_key sessionAt_set_ex)
  have c: "map_option resolvedBy (sessionAt (snd (process_speech exEnv (exClock 901000) exOk
        (exSpeech (Some ''hello'')) (exWorld exFullSession))) exKey) \<noteq> Some ''TIME_LIMIT''"
    unfolding b by simp
  show ?thesis using l k a b c exEnv_limits(2) by blast
qed

subsection \<open>Human transfer\<close>

text \<open>
  C5. For a speech event that passes both budget checks and whose lowercased utterance
  contains one of the four keywords: if the tenant enables human transfer, the response
  dials the tenant's human agent, the session is stored with the user turn and
  \<open>resolvedBy = HUMAN\<close>, and no provider call is issued; if the tenant disables it,
  the response is never a dial and the stored \<open>resolvedBy\<close> keeps its value.
\<close>

theorem human_transfer:
  assumes "kv w (sessionKey (To req) (CallSid req)) = Some (Str (SessionDoc s x), t)"
    and "\<not> overTurns pe s" and "\<not> overTime pe clk s"
    and "getTenantConfig pe w (To req) = Inr tenant"
    and "k \<in> set [''human'', ''agent'', ''person'', ''operator'']"
    and "includes_str (toLowerCase (speechOf req)) k"
  shows "(enableHumanTransfer tenant \<longrightarrow>
            fst (process_speech pe clk p req w) = Sent (PlayDial (tpl (humanAgent tenant))) \<and>
            sessionAt (snd (process_speech pe clk p req w)) (sessionKey (To req) (CallSid req))
              = Some (s\<lparr>messages := messages s @ [\<lparr>role = User, content = speechOf req\<rparr>],
                        resolvedBy := ''HUMAN''\<rparr>) \<and>
            issued w (snd (process_speech pe clk p req w)) = [])
       \<and> (\<not> enableHumanTransfer tenant \<longrightarrow>
            (\<forall>a. fst (process_speech pe clk p req w) \<noteq> Sent (PlayDial a)) \<and>
            map_option resolvedBy
              (sessionAt (snd (process_speech pe clk p req w)) (sessionKey (To req) (CallSid req)))
              = Some (resolvedBy s))"
proof (intro conjI impI)
  assume en: "enableHumanTransfer tenant"
  then have wh: "wantsHuman tenant (toLowerCase (speechOf req))"
    using assms(5,6) unfolding wantsHuman_iff by blast
  note r = ps_human [OF assms(1-4) wh, of p]
  show "fst (process_speech pe clk p req w) = Sent (PlayDial (tpl (humanAgent tenant)))"
    by (simp add: r)
  show "sessionAt (snd (process_speech pe clk p req w)) (sessionKey (To req) (CallSid req))
              = Some (s\<lparr>messages := messages s @ [\<lparr>role = User, content = speechOf req\<rparr>],
                        resolvedBy := ''HUMAN''\<rparr>)"
    by (simp add: r sessionAt_set_ex)
  show "issued w (snd (process_speech pe clk p req w)) = []"
    by (simp add: r issued_def calls_set_ex)
next
  assume dis: "\<not> enableHumanTransfer tenant"
  then have wh: "\<not> wantsHuman tenant (toLowerCase (speechOf req))"
    by (simp add: wantsHuman_def)
  note r = ps_ai [OF assms(1-4) wh, of p]
  show "\<forall>a. fst (process_speech pe clk p req w) \<noteq> Sent (PlayDial a)"
    by (simp add: r aiReply_not_dial)
  show "map_option resolvedBy
              (sessionAt (snd (process_speech pe clk p req w)) (sessionKey (To req) (CallSid req)))
              = Some (resolvedBy s)"
    unfolding r by (rule aiReply_resolvedBy [OF assms(1)]) simp
qed

theorem human_transfer_witness:
  "kv (exWorld exSession) (sessionKey (To (exSpeech (Some ''I want to talk to a HUMAN'')))
       (CallSid (exSpeech (Some ''I want to talk to a HUMAN''))))
     = Some (Str (SessionDoc exSession None), Some 3600)
   \<and> kv (exWorldOff exSession) (sessionKey (To (exSpeech (Some ''I want to talk to a HUMAN'')))
       (CallSid (exSpeech (Some ''I want to talk to a HUMAN''))))
     = Some (Str (SessionDoc exSession None), Some 3600)
   \<and> \<not> overTurns exEnv exSession \<and> \<not> overTime exEnv (exClock 60000) exSession
   \<and> getTenantConfig exEnv (exWorld exSession) (To (exSpeech (Some ''I want to talk to a HUMAN'')))
       = Inr (defaultTenant exEnv)
   \<and> getTenantConfig exEnv (exWorldOff exSession) (To (exSpeech (Some ''I want to talk to a HUMAN'')))
       = Inr exTenantOff
   \<and> ''human'' \<in> set [''human'', ''agent'', ''person'', ''operator'']
   \<and> includes_str (toLowerCase (speechOf (exSpeech (Some ''I want to talk to a HUMAN'')))) ''human''
   \<and> enableHumanTransfer (defaultTenant exEnv)
   \<and> fst (process_speech exEnv (exClock 60000) exOk (exSpeech (Some ''I want to talk to a HUMAN''))
          (exWorld exSession)) = Sent (PlayDial ''+15550100'')
   \<and> map_option resolvedBy (sessionAt (snd (process_speech exEnv (exClock 60000) exOk
          (exSpeech (Some ''I want to talk to a HUMAN'')) (exWorld exSession))) exKey) = Some ''HUMAN''
   \<and> issued (exWorld exSession) (snd (process_speech exEnv (exClock 60000) exOk
          (exSpeech (Some ''I want to talk to a HUMAN'')) (exWorld exSession))) = []
   \<and> \<not> enableHumanTransfer exTenantOff
   \<and> fst (process_speech exEnv (exClock 60000) exOk (exSpeech (Some ''I want to talk to a HUMAN''))
          (exWorldOff exSession)) \<noteq> Sent (PlayDial ''+15550199'')
   \<and> map_option resolvedBy (sessionAt (snd (process_speech exEnv (exClock 60000) exOk
          (exSpeech (Some ''I want to talk to a HUMAN'')) (exWorldOff exSession))) exKey) = Some ''AI''"
proof -
  let ?req = "exSpeech (Some ''I want to talk to a HUMAN'')"
  have m: "''human'' \<in> set [''human'', ''agent'', ''person'', ''operator'']" by simp
  have en: "enableHumanTransfer (defaultTenant exEnv)" by (simp add: defaultTenant_def)
  have dis: "\<not> enableHumanTransfer exTenantOff" by (simp add: exTenantOff_def)
  note on = human_transfer [OF exWorld_key [of exSession "Some ''I want to talk to a HUMAN''"]
      exSession_not_overTurns exSession_not_overTime exTenant_default m human_said,
      where p = exOk, THEN conjunct1, rule_format, OF en]
  note off = human_transfer [OF exWorldOff_key [of exSession "Some ''I want to talk to a HUMAN''"]
      exSession_not_overTurns exSession_not_overTime exTenant_off m human_said,
      where p = exOk, THEN conjunct2, rule_format, OF dis]
  have a: "fst (process_speech exEnv (exClock 60000) exOk ?req (exWorld exSession))
      = Sent (PlayDial ''+15550100'')"
    using on [THEN conjunct1] by (simp add: defaultTenant_def exEnv_def tpl_def)
  have b: "map_option resolvedBy (sessionAt (snd (process_speech exEnv (exClock 60000) exOk
          ?req (exWorld exSession))) exKey) = Some ''HUMAN''"
    using on [THEN conjunct2, THEN conjunct1] by (simp add: exSpeech_key)
  have c: "issued (exWorld exSession) (snd (process_speech exEnv (exClock 60000) exOk
          ?req (exWorld exSession))) = []"
    using on [THEN conjunct2, THEN conjunct2] .
  have d: "fst (process_speech exEnv (exClock 60000) exOk ?req (exWorldOff exSession))
      \<noteq> Sent (PlayDial ''+15550199'')"
    using off [THEN conjunct1] by blast
  have e: "map_option resolvedBy (sessionAt (snd (process_speech exEnv (exClock 60000) exOk
          ?req (exWorldOff exSession))) exKey) = Some ''AI''"
    using off [THEN conjunct2] by (simp add: exSpeech_key exSession_def)
  show ?thesis
    using exWorld_key [of exSession "Some ''I want to talk to a HUMAN''"]
      exWorldOff_key [of exSession "Some ''I want to talk to a HUMAN''"]
      exSession_not_overTurns exSession_not_overTime
      exTenant_default [of exSession "Some ''I want to talk to a HUMAN''"]
      exTenant_off [of exSession "Some ''I want to talk to a HUMAN''"] m human_said en a b c dis d e
    by blast
qed

subsection \<open>Provider failures\<close>




subsection \<open>Intent classification\<close>

text \<open>
  C6 (amended). Once the stored intent is a non-empty string, no sequence of speech
  events, for this call or any other, changes it. A single speech event calls the
  classifier only if the session it loaded has intent \<open>null\<close> or the empty string, and
  whenever an event changes the stored intent, the new value is the trimmed text the
  classifier returned for this utterance.
\<close>

theorem intent_set_once:
  "(sessionAt w k = Some s \<and> intent s = Some i \<and> i \<noteq> [] \<longrightarrow>
      (\<exists>s'. sessionAt (speech_events pe es w) k = Some s' \<and> intent s' = Some i))
   \<and> (list_ex isClassifyCall (issued w (snd (process_speech pe clk p req w))) \<longrightarrow>
      (\<exists>sa. sessionAt w (sessionKey (To req) (CallSid req)) = Some sa
         \<and> (intent sa = None \<or> intent sa = Some [])))
   \<and> (sessionAt w (sessionKey (To req) (CallSid req)) = Some sa
       \<and> sessionAt (snd (process_speech pe clk p req w)) (sessionKey (To req) (CallSid req)) = Some sb
       \<and> intent sb \<noteq> intent sa \<longrightarrow>
      (\<exists>c. chat p 0 (classifyPrompt (speechOf req)) = Some c \<and> intent sb = Some (trim c)))"
proof (intro conjI impI)
  assume "sessionAt w k = Some s \<and> intent s = Some i \<and> i \<noteq> []"
  then show "\<exists>s'. sessionAt (speech_events pe es w) k = Some s' \<and> intent s' = Some i"
    using speech_events_intent by blast
next
  assume "list_ex isClassifyCall (issued w (snd (process_speech pe clk p req w)))"
  from ps_classify [OF this]
  show "\<exists>sa. sessionAt w (sessionKey (To req) (CallSid req)) = Some sa
         \<and> (intent sa = None \<or> intent sa = Some [])"
    unfolding intentMissing_def .
next
  assume a: "sessionAt w (sessionKey (To req) (CallSid req)) = Some sa
       \<and> sessionAt (snd (process_speech pe clk p req w)) (sessionKey (To req) (CallSid req)) = Some sb
       \<and> intent sb \<noteq> intent sa"
  from ps_session_cases [of w req sa pe clk p] a have "sessionAfter p req sa sb" by auto
  from sessionAfter_new_intent [OF this] a
  show "\<exists>c. chat p 0 (classifyPrompt (speechOf req)) = Some c \<and> intent sb = Some (trim c)"
    by blast
qed

theorem intent_set_once_witness:
  "sessionAt (exWorld (exSession\<lparr>intent := Some ''support''\<rparr>)) exKey
      = Some (exSession\<lparr>intent := Some ''support''\<rparr>)
   \<and> intent (exSession\<lparr>intent := Some ''support''\<rparr>) = Some ''support'' \<and> ''support'' \<noteq> []
   \<and> map_option intent (sessionAt (speech_events exEnv
        [(exClock 60000, exProviders (Some ''sales'') (Some ''Sure.'') (Some ''mp3''), exSpeech (Some ''I need a quote'')),
         (exClock 70000, exProviders (Some ''info'') (Some ''Okay.'') (Some ''mp3''), exSpeech (Some ''and your hours''))]
        (exWorld (exSession\<lparr>intent := Some ''support''\<rparr>))) exKey) = Some (Some ''support'')
   \<and> list_ex isClassifyCall (issued (exWorld exSession)
        (snd (process_speech exEnv (exClock 60000) (exProviders (Some '' info '') (Some ''Okay.'') (Some ''mp3''))
                (exSpeech (Some ''your hours'')) (exWorld exSession))))
   \<and> intent exSession = None
   \<and> sessionAt (exWorld exSession) (sessionKey (To (exSpeech (Some ''your hours''))) (CallSid (exSpeech (Some ''your hours''))))
       = Some exSession
   \<and> sessionAt (snd (process_speech exEnv (exClock 60000) (exProviders (Some '' info '') (Some ''Okay.'') (Some ''mp3''))
                (exSpeech (Some ''your hours'')) (exWorld exSession)))
        (sessionKey (To (exSpeech (Some ''your hours''))) (CallSid (exSpeech (Some ''your hours''))))
       = Some (exSession\<lparr>intent := Some ''info'',
                 messages := messages exSession @ [\<lparr>role = User, content = ''your hours''\<rparr>,
                                                   \<lparr>role = Assistant, content = ''Okay.''\<rparr>]\<rparr>)
   \<and> chat (exProviders (Some '' info '') (Some ''Okay.'') (Some ''mp3'')) 0
        (classifyPrompt (speechOf (exSpeech (Some ''your hours'')))) = Some '' info ''
   \<and> trim '' info '' = ''info''"
proof -
  let ?s = "exSession\<lparr>intent := Some ''support''\<rparr>"
  let ?es = "[(exClock 60000, exProviders (Some ''sales'') (Some ''Sure.'') (Some ''mp3''), exSpeech (Some ''I need a quote'')),
         (exClock 70000, exProviders (Some ''info'') (Some ''Okay.'') (Some ''mp3''), exSpeech (Some ''and your hours''))]"
  let ?p = "exProviders (Some '' info '') (Some ''Okay.'') (Some ''mp3'')"
  let ?req = "exSpeech (Some ''your hours'')"
  let ?s1 = "exSession\<lparr>intent := Some ''info'',
                 messages := messages exSession @ [\<lparr>role = User, content = ''your hours''\<rparr>,
                                                   \<lparr>role = Assistant, content = ''Okay.''\<rparr>]\<rparr>"
  have h1: "sessionAt (exWorld ?s) exKey = Some ?s" by (simp add: sessionAt_def exWorld_def)
  have h2: "intent ?s = Some ''support''" by simp
  have h3: "''support'' \<noteq> []" by simp
  have h4: "list_ex isClassifyCall (issued (exWorld exSession)
        (snd (process_speech exEnv (exClock 60000) ?p ?req (exWorld exSession))))" by code_simp
  have h5: "sessionAt (exWorld exSession) (sessionKey (To ?req) (CallSid ?req)) = Some exSession"
    by (simp add: sessionAt_def exWorld_key)
  have h6: "sessionAt (snd (process_speech exEnv (exClock 60000) ?p ?req (exWorld exSession)))
        (sessionKey (To ?req) (CallSid ?req)) = Some ?s1" by code_simp
  have h7: "intent ?s1 \<noteq> intent exSession" by (simp add: exSession_def)
  note th = intent_set_once [where w = "exWorld ?s" and k = exKey and s = ?s and i = "''support''"
      and pe = exEnv and es = ?es]
  from th [THEN conjunct1] h1 h2 h3
  obtain s' where "sessionAt (speech_events exEnv ?es (exWorld ?s)) exKey = Some s'"
    and "intent s' = Some ''support''" by blast
  then have a: "map_option intent (sessionAt (speech_events exEnv ?es (exWorld ?s)) exKey)
      = Some (Some ''support'')" by simp
  note th2 = intent_set_once [where w = "exWorld exSession" and pe = exEnv and clk = "exClock 60000"
      and p = ?p and req = ?req and sa = exSession and sb = ?s1]
  from th2 [THEN conjunct2, THEN conjunct1] h4 h5
  have b: "intent exSession = None \<or> intent exSession = Some []" by simp
  then have b': "intent exSession = None" by (simp add: exSession_def)
  from th2 [THEN conjunct2, THEN conjunct2] h5 h6 h7
  obtain c where c1: "chat ?p 0 (classifyPrompt (speechOf ?req)) = Some c" and c2: "intent ?s1 = Some (trim c)"
    by blast
  from c1 have "c = '' info ''" by (simp add: exProviders_def exProvidersReply_def)
  with c1 c2 have c: "chat ?p 0 (classifyPrompt (speechOf ?req)) = Some '' info ''"
    and d: "trim '' info '' = ''info''" by simp_all
  show ?thesis using h1 h2 h3 a h4 b' h5 h6 c d by blast
qed

text \<open>
  The claim as stated fails for the empty string, which is not \<open>null\<close> but passes
  \<open>!session.intent\<close>: a classifier answer of two blanks is stored as the empty string,
  and the next event classifies again and replaces it.
\<close>

theorem intent_set_once_counterexample:
  "map_option intent (sessionAt (speech_events exEnv
      [(exClock 60000, exProviders (Some ''  '') (Some ''Sorry?'') (Some ''mp3''), exSpeech (Some ''hm''))]
      (exWorld exSession)) exKey) = Some (Some [])
   \<and> map_option intent (sessionAt (speech_events exEnv
      [(exClock 60000, exProviders (Some ''  '') (Some ''Sorry?'') (Some ''mp3''), exSpeech (Some ''hm'')),
       (exClock 70000, exProviders (Some ''sales'') (Some ''Sure.'') (Some ''mp3''), exSpeech (Some ''I need a quote''))]
      (exWorld exSession)) exKey) = Some (Some ''sales'')"
  by code_simp

subsection \<open>Terminal values of \<open>resolvedBy\<close>\<close>

text \<open>
  C2 (amended). When a speech event at time \<open>clk0\<close> is stopped by the turn budget or the
  time budget, it stores the session with \<open>LIMIT\<close> (turn budget, checked first) or
  \<open>TIME_LIMIT\<close>, and after any further speech events whose clocks are not earlier than
  \<open>clk0\<close> the stored session is still exactly that one: no turn has been appended and
  \<open>resolvedBy\<close> has not moved to another value.
\<close>

theorem closed_by_budget_stays_closed:
  assumes "sessionAt w (sessionKey (To req) (CallSid req)) = Some s"
    and "overTurns pe s \<or> overTime pe clk0 s"
    and "\<forall>e \<in> set es. now clk0 \<le> now (fst e)"
  shows "sessionAt (speech_events pe ((clk0, p, req) # es) w) (sessionKey (To req) (CallSid req))
           = Some (s\<lparr>resolvedBy := (if overTurns pe s then ''LIMIT'' else ''TIME_LIMIT'')\<rparr>)"
proof -
  let ?key = "sessionKey (To req) (CallSid req)"
  let ?s' = "s\<lparr>resolvedBy := (if overTurns pe s then ''LIMIT'' else ''TIME_LIMIT'')\<rparr>"
  from sessionAt_SomeD [OF assms(1)] obtain x t where k: "kv w ?key = Some (Str (SessionDoc s x), t)"
    by blast
  have first: "sessionAt (snd (process_speech pe clk0 p req w)) ?key = Some ?s'"
  proof (cases "overTurns pe s")
    case True
    show ?thesis unfolding ps_limit [OF k True] snd_conv sessionAt_set_ex using True by simp
  next
    case False
    with assms(2) have od: "overTime pe clk0 s" by blast
    show ?thesis unfolding ps_time [OF k False od] snd_conv sessionAt_set_ex using False by simp
  qed
  have ot: "overTurns pe ?s' = overTurns pe s" by (simp add: overTurns_def)
  have od: "overTime pe clk0 ?s' = overTime pe clk0 s" by (simp add: overTime_def)
  have c: "overTurns pe ?s' \<or> overTime pe clk0 ?s'" unfolding ot od by (rule assms(2))
  have r: "resolvedBy ?s' = (if overTurns pe ?s' then ''LIMIT'' else ''TIME_LIMIT'')"
    unfolding ot by simp
  from speech_events_closed [OF first c r assms(3)] show ?thesis by simp
qed

theorem closed_by_budget_stays_closed_witness:
  "sessionAt (exWorld exFullSession)
      (sessionKey (To (exSpeech (Some ''one more''))) (CallSid (exSpeech (Some ''one more'')))) = Some exFullSession
   \<and> (overTurns exEnv exFullSession \<or> overTime exEnv (exClock 60000) exFullSession)
   \<and> now (exClock 60000) \<le> now (exClock 70000) \<and> now (exClock 60000) \<le> now (exClock 80000)
   \<and> sessionAt (speech_events exEnv
        [(exClock 60000, exOk, exSpeech (Some ''one more'')),
         (exClock 70000, exOk, exSpeech (Some ''hello'')),
         (exClock 80000, exOk, exSpeech (Some ''agent please''))] (exWorld exFullSession)) exKey
      = Some (exFullSession\<lparr>resolvedBy := ''LIMIT''\<rparr>)"
proof -
  let ?req = "exSpeech (Some ''one more'')"
  let ?es = "[(exClock 70000, exOk, exSpeech (Some ''hello'')),
              (exClock 80000, exOk, exSpeech (Some ''agent please''))]"
  have h1: "sessionAt (exWorld exFullSession) (sessionKey (To ?req) (CallSid ?req)) = Some exFullSession"
    by (simp add: sessionAt_def exWorld_key)
  have h2: "overTurns exEnv exFullSession \<or> overTime exEnv (exClock 60000) exFullSession"
    using exFull_overTurns by simp
  have h3: "\<forall>e \<in> set ?es. now (exClock 60000) \<le> now (fst e)"
    by (simp add: exClock_def)
  from closed_by_budget_stays_closed [OF h1 h2 h3, of exOk]
  have "sessionAt (speech_events exEnv ((exClock 60000, exOk, ?req) # ?es) (exWorld exFullSession)) exKey
      = Some (exFullSession\<lparr>resolvedBy := ''LIMIT''\<rparr>)"
    unfolding exSpeech_key using exFull_overTurns by simp
  moreover have "now (exClock 60000) \<le> now (exClock 70000)" "now (exClock 60000) \<le> now (exClock 80000)"
    by (simp_all add: exClock_def)
  ultimately show ?thesis using h1 h2 by blast
qed

text \<open>
  The claim as stated fails for \<open>HUMAN\<close>: the handler never reads \<open>resolvedBy\<close>, so
  after a transfer the next speech event appends a user and an assistant turn, and an
  event after 900 seconds assigns a second terminal value.
\<close>

theorem terminal_once_counterexample:
  "map_option resolvedBy (sessionAt (speech_events exEnv
      [(exClock 60000, exOk, exSpeech (Some ''I want to talk to a HUMAN''))] (exWorld exSession)) exKey)
     = Some ''HUMAN''
   \<and> map_option messages (sessionAt (speech_events exEnv
      [(exClock 60000, exOk, exSpeech (Some ''I want to talk to a HUMAN''))] (exWorld exSession)) exKey)
     = Some (messages exSession @ [\<lparr>role = User, content = ''I want to talk to a HUMAN''\<rparr>])
   \<and> map_option messages (sessionAt (speech_events exEnv
      [(exClock 60000, exOk, exSpeech (Some ''I want to talk to a HUMAN'')),
       (exClock 70000, exOk, exSpeech (Some ''hello''))] (exWorld exSession)) exKey)
     = Some (messages exSession @ [\<lparr>role = User, content = ''I want to talk to a HUMAN''\<rparr>,
               \<lparr>role = User, content = ''hello''\<rparr>, \<lparr>role = Assistant, content = ''Happy to help.''\<rparr>])
   \<and> map_option resolvedBy (sessionAt (speech_events exEnv
      [(exClock 60000, exOk, exSpeech (Some ''I want to talk to a HUMAN'')),
       (exClock 70000, exOk, exSpeech (Some ''hello'')),
       (exClock 901000, exOk, exSpeech (Some ''hello''))] (exWorld exSession)) exKey)
     = Some ''TIME_LIMIT''"
  by code_simp

subsection \<open>Finalization\<close>

text \<open>
  C9. For a stored session whose analytics key is free or holds a hash, running the
  call-ended handler twice in sequence (at any two clock readings) increments
  \<open>total_calls\<close> and \<open>resolved_<resolvedBy>\<close> by exactly one: the first run answers 200
  and deletes the session, the second finds nothing and returns the world unchanged.
\<close>

theorem finalize_idempotent:
  assumes "kv w (sessionKey (To req) (CallSid req)) = Some (Str (SessionDoc s x), t)"
    and "hashOrAbsent w (analyticsKey clk (To req))"
  shows "fst (call_ended clk req w) = Sent Status200
       \<and> call_ended clk' req (snd (call_ended clk req w)) = (Sent Status200, snd (call_ended clk req w))
       \<and> counterAt (snd (call_ended clk' req (snd (call_ended clk req w))))
            (analyticsKey clk (To req)) ''total_calls''
           = counterAt w (analyticsKey clk (To req)) ''total_calls'' + 1
       \<and> counterAt (snd (call_ended clk' req (snd (call_ended clk req w))))
            (analyticsKey clk (To req)) (''resolved_'' @ resolvedBy s)
           = counterAt w (analyticsKey clk (To req)) (''resolved_'' @ resolvedBy s) + 1"
proof -
  note st = ce_step [OF assms]
  have again: "call_ended clk' req (snd (call_ended clk req w)) = (Sent Status200, snd (call_ended clk req w))"
    by (rule ce_absent) (rule st(2))
  show ?thesis
    unfolding again snd_conv using st(1) by (simp add: st(3))
qed

theorem finalize_idempotent_witness:
  "kv (exWorld exSession) (sessionKey (To (exSpeech None)) (CallSid (exSpeech None)))
      = Some (Str (SessionDoc exSession None), Some 3600)
   \<and> hashOrAbsent (exWorld exSession) (analyticsKey (exClock 120000) (To (exSpeech None)))
   \<and> fst (call_ended (exClock 120000) (exSpeech None) (exWorld exSession)) = Sent Status200
   \<and> call_ended (exClock 125000) (exSpeech None)
        (snd (call_ended (exClock 120000) (exSpeech None) (exWorld exSession)))
      = (Sent Status200, snd (call_ended (exClock 120000) (exSpeech None) (exWorld exSession)))
   \<and> counterAt (snd (call_ended (exClock 125000) (exSpeech None)
        (snd (call_ended (exClock 120000) (exSpeech None) (exWorld exSession))))) exAnalytics ''total_calls'' = 1
   \<and> counterAt (snd (call_ended (exClock 125000) (exSpeech None)
        (snd (call_ended (exClock 120000) (exSpeech None) (exWorld exSession))))) exAnalytics ''resolved_AI'' = 1"
proof -
  have a: "analyticsKey (exClock 120000) (To (exSpeech None)) = exAnalytics"
    unfolding exSpeech_def by (rule exAnalytics_eq)
  have h: "hashOrAbsent (exWorld exSession) (analyticsKey (exClock 120000) (To (exSpeech None)))"
    unfolding a by (simp add: hashOrAbsent_def exWorld_def exAnalytics_def exKey_def)
  have z: "counterAt (exWorld exSession) exAnalytics f = 0" for f
    by (simp add: counterAt_def exWorld_def exAnalytics_def exKey_def)
  have r: "''resolved_'' @ resolvedBy exSession = ''resolved_AI''" by (simp add: exSession_def)
  note th = finalize_idempotent [OF exWorld_key [of exSession None] h, of "exClock 125000",
      unfolded a r z]
  have c1: "fst (call_ended (exClock 120000) (exSpeech None) (exWorld exSession)) = Sent Status200"
    using th [THEN conjunct1] .
  have c2: "call_ended (exClock 125000) (exSpeech None)
        (snd (call_ended (exClock 120000) (exSpeech None) (exWorld exSession)))
      = (Sent Status200, snd (call_ended (exClock 120000) (exSpeech None) (exWorld exSession)))"
    using th [THEN conjunct2, THEN conjunct1] .
  have c3: "counterAt (snd (call_ended (exClock 125000) (exSpeech None)
        (snd (call_ended (exClock 120000) (exSpeech None) (exWorld exSession))))) exAnalytics ''total_calls'' = 1"
    using th [THEN conjunct2, THEN conjunct2, THEN conjunct1] by simp
  have c4: "counterAt (snd (call_ended (exClock 125000) (exSpeech None)
        (snd (call_ended (exClock 120000) (exSpeech None) (exWorld exSession))))) exAnalytics ''resolved_AI'' = 1"
    using th [THEN conjunct2, THEN conjunct2, THEN conjunct2] by simp
  show ?thesis
    using exWorld_key [of exSession None] h c1 c2 c3 c4 by blast
qed

subsection \<open>Session creation\<close>

text \<open>
  C1 (amended). For every initiation event whose tenant configuration can be read, the
  stored session has \<open>resolvedBy = AI\<close>, \<open>intent = null\<close>, \<open>startTime\<close> the creation
  time and the single system turn built from the tenant's business name, style and
  hours; finalizing the call right after, or at any later point at which the stored
  \<open>resolvedBy\<close> is still \<open>AI\<close>, increments the daily \<open>resolved_AI\<close> counter by one.
\<close>

theorem created_session_fields:
  assumes "getTenantConfig pe w (To req) = Inr tenant"
    and "hashOrAbsent w (analyticsKey clk' (To req))"
  shows "sessionAt (snd (incoming_call pe clk p req w)) (sessionKey (To req) (CallSid req)) =
           Some \<lparr>callSid = CallSid req, tenantId = To req, fromAddr = From req, intent = None,
                 startTime = now clk, resolvedBy = ''AI'',
                 messages = [\<lparr>role = System, content = systemPrompt tenant\<rparr>]\<rparr>
       \<and> counterAt (snd (call_ended clk' req (snd (incoming_call pe clk p req w))))
            (analyticsKey clk' (To req)) ''resolved_AI''
           = counterAt w (analyticsKey clk' (To req)) ''resolved_AI'' + 1
       \<and> (kv wend (sessionKey (To req) (CallSid req)) = Some (Str (SessionDoc send xend), tend)
            \<and> resolvedBy send = ''AI''
            \<and> hashOrAbsent wend (analyticsKey clk' (To req))
          \<longrightarrow> counterAt (snd (call_ended clk' req wend)) (analyticsKey clk' (To req)) ''resolved_AI''
                = counterAt wend (analyticsKey clk' (To req)) ''resolved_AI'' + 1)"
proof -
  let ?key = "sessionKey (To req) (CallSid req)"
  let ?a = "analyticsKey clk' (To req)"
  let ?w1 = "snd (incoming_call pe clk p req w)"
  note kvs = incoming_call_kv [OF assms(1), of clk p]
  have k: "kv ?w1 ?key = Some (Str (SessionDoc (newSession clk req tenant) None), Some 3600)"
    unfolding kvs by simp
  have a: "kv ?w1 ?a = kv w ?a"
    unfolding kvs using sessionKey_neq_analyticsKey [of "To req" "CallSid req" clk'] by simp
  have h: "hashOrAbsent ?w1 ?a"
    using hashOrAbsent_cong [OF a] assms(2) by simp
  have r: "resolvedBy (newSession clk req tenant) = ''AI''" by (simp add: newSession_def)
  have "counterAt (snd (call_ended clk' req ?w1)) ?a ''resolved_AI'' = counterAt ?w1 ?a ''resolved_AI'' + 1"
    unfolding ce_step(3) [OF k h] r by simp
  then have c: "counterAt (snd (call_ended clk' req ?w1)) ?a ''resolved_AI'' = counterAt w ?a ''resolved_AI'' + 1"
    unfolding counterAt_cong [OF a] .
  have s: "sessionAt ?w1 ?key = Some (newSession clk req tenant)"
    using k by (simp add: sessionAt_def)
  have g: "counterAt (snd (call_ended clk' req wend)) ?a ''resolved_AI'' = counterAt wend ?a ''resolved_AI'' + 1"
    if "kv wend ?key = Some (Str (SessionDoc send xend), tend) \<and> resolvedBy send = ''AI'' \<and> hashOrAbsent wend ?a"
  proof -
    from that have k2: "kv wend ?key = Some (Str (SessionDoc send xend), tend)"
      and r2: "resolvedBy send = ''AI''" and h2: "hashOrAbsent wend ?a" by simp_all
    show ?thesis unfolding ce_step(3) [OF k2 h2] r2 by simp
  qed
  show ?thesis using s c g by (simp add: newSession_def)
qed

theorem created_session_fields_witness:
  "getTenantConfig exEnv emptyWorld (To (exRequest (Some ''CA1'') (Some ''+15550001'') None))
      = Inr (defaultTenant exEnv)
   \<and> hashOrAbsent emptyWorld (analyticsKey (exClock 30000) (To (exRequest (Some ''CA1'') (Some ''+15550001'') None)))
   \<and> sessionAt (snd (incoming_call exEnv (exClock 0) exOk (exRequest (Some ''CA1'') (Some ''+15550001'') None)
        emptyWorld)) exKey
      = Some \<lparr>callSid = Some ''CA1'', tenantId = Some ''+15550001'', fromAddr = Some ''+15550002'',
              intent = None, startTime = 0, resolvedBy = ''AI'',
              messages = [\<lparr>role = System, content = systemPrompt (defaultTenant exEnv)\<rparr>]\<rparr>
   \<and> counterAt (snd (call_ended (exClock 30000) (exRequest (Some ''CA1'') (Some ''+15550001'') None)
        (snd (incoming_call exEnv (exClock 0) exOk (exRequest (Some ''CA1'') (Some ''+15550001'') None)
           emptyWorld)))) exAnalytics ''resolved_AI'' = 1
   \<and> kv (exWorld (exSession\<lparr>messages := messages exSession @ exPairs 3\<rparr>))
        (sessionKey (To (exRequest (Some ''CA1'') (Some ''+15550001'') None))
                    (CallSid (exRequest (Some ''CA1'') (Some ''+15550001'') None)))
      = Some (Str (SessionDoc (exSession\<lparr>messages := messages exSession @ exPairs 3\<rparr>) None), Some 3600)
   \<and> resolvedBy (exSession\<lparr>messages := messages exSession @ exPairs 3\<rparr>) = ''AI''
   \<and> hashOrAbsent (exWorld (exSession\<lparr>messages := messages exSession @ exPairs 3\<rparr>))
        (analyticsKey (exClock 30000) (To (exRequest (Some ''CA1'') (Some ''+15550001'') None)))
   \<and> counterAt (snd (call_ended (exClock 30000) (exRequest (Some ''CA1'') (Some ''+15550001'') None)
        (exWorld (exSession\<lparr>messages := messages exSession @ exPairs 3\<rparr>)))) exAnalytics ''resolved_AI'' = 1"
proof -
  let ?req = "exRequest (Some ''CA1'') (Some ''+15550001'') None"
  let ?s2 = "exSession\<lparr>messages := messages exSession @ exPairs 3\<rparr>"
  have h: "hashOrAbsent emptyWorld (analyticsKey (exClock 30000) (To ?req))"
    by (simp add: hashOrAbsent_def emptyWorld_def)
  have z: "counterAt emptyWorld exAnalytics ''resolved_AI'' = 0"
    by (simp add: counterAt_def emptyWorld_def)
  have k2: "kv (exWorld ?s2) (sessionKey (To ?req) (CallSid ?req))
      = Some (Str (SessionDoc ?s2 None), Some 3600)"
    unfolding exRequest_key by (simp add: exWorld_def)
  have r2: "resolvedBy ?s2 = ''AI''" by (simp add: exSession_def)
  have h2: "hashOrAbsent (exWorld ?s2) (analyticsKey (exClock 30000) (To ?req))"
    unfolding exAnalytics_eq by (simp add: hashOrAbsent_def exWorld_def exAnalytics_def exKey_def)
  have z2: "counterAt (exWorld ?s2) exAnalytics ''resolved_AI'' = 0"
    by (simp add: counterAt_def exWorld_def exAnalytics_def exKey_def)
  note th = created_session_fields [OF emptyWorld_tenant h, where clk = "exClock 0" and p = exOk
      and wend = "exWorld ?s2" and send = ?s2 and xend = None and tend = "Some 3600"]
  have a: "sessionAt (snd (incoming_call exEnv (exClock 0) exOk ?req emptyWorld)) exKey
      = Some \<lparr>callSid = Some ''CA1'', tenantId = Some ''+15550001'', fromAddr = Some ''+15550002'',
              intent = None, startTime = 0, resolvedBy = ''AI'',
              messages = [\<lparr>role = System, content = systemPrompt (defaultTenant exEnv)\<rparr>]\<rparr>"
    using th [THEN conjunct1] unfolding exRequest_key by (simp add: exRequest_def exClock_def)
  have b: "counterAt (snd (call_ended (exClock 30000) ?req
        (snd (incoming_call exEnv (exClock 0) exOk ?req emptyWorld)))) exAnalytics ''resolved_AI'' = 1"
    using th [THEN conjunct2, THEN conjunct1] unfolding exAnalytics_eq z by simp
  have c: "counterAt (snd (call_ended (exClock 30000) ?req (exWorld ?s2))) exAnalytics ''resolved_AI'' = 1"
    using th [THEN conjunct2, THEN conjunct2] k2 r2 h2 unfolding exAnalytics_eq z2 by simp
  show ?thesis using emptyWorld_tenant [of "To ?req"] h a b k2 r2 h2 c by blast
qed

text \<open>
  The claim as stated fails: the session is created with \<open>AI\<close>, not \<open>UNSET\<close>, and a
  call finalized without any speech event counts under \<open>resolved_AI\<close> while
  \<open>resolved_UNSET\<close> stays at zero.
\<close>

theorem created_session_counterexample:
  "map_option resolvedBy (sessionAt (snd (incoming_call exEnv (exClock 0) exOk
        (exRequest (Some ''CA1'') (Some ''+15550001'') None) emptyWorld)) exKey) = Some ''AI''
   \<and> map_option resolvedBy (sessionAt (snd (incoming_call exEnv (exClock 0) exOk
        (exRequest (Some ''CA1'') (Some ''+15550001'') None) emptyWorld)) exKey) \<noteq> Some ''UNSET''
   \<and> counterAt (snd (call_ended (exClock 30000) (exRequest (Some ''CA1'') (Some ''+15550001'') None)
        (snd (incoming_call exEnv (exClock 0) exOk (exRequest (Some ''CA1'') (Some ''+15550001'') None)
           emptyWorld)))) exAnalytics ''resolved_UNSET'' = 0
   \<and> counterAt (snd (call_ended (exClock 30000) (exRequest (Some ''CA1'') (Some ''+15550001'') None)
        (snd (incoming_call exEnv (exClock 0) exOk (exRequest (Some ''CA1'') (Some ''+15550001'') None)
           emptyWorld)))) exAnalytics ''resolved_AI'' = 1"
  by code_simp

subsection \<open>Missing identifiers\<close>

text \<open>
  C10 (amended). No handler validates its payload. An initiation event without
  \<open>CallSid\<close> or \<open>To\<close>, whose tenant configuration can be read, stores a session under
  the key in which the missing identifier reads \<open>undefined\<close>; a speech or termination
  event with a missing identifier is processed exactly like the event that carries the
  text \<open>undefined\<close> in its place.
\<close>

theorem missing_identifier_not_rejected:
  assumes "CallSid req = None \<or> To req = None"
    and "getTenantConfig pe w (To req) = Inr tenant"
  shows "sessionAt (snd (incoming_call pe clk p req w)) (sessionKey (To req) (CallSid req))
           = Some (newSession clk req tenant)
       \<and> sessionKey (To req) (CallSid req)
           = ''tenant:'' @ (case To req of None \<Rightarrow> ''undefined'' | Some tid \<Rightarrow> tid)
               @ '':call:session:'' @ (case CallSid req of None \<Rightarrow> ''undefined'' | Some sid \<Rightarrow> sid)
       \<and> process_speech pe clk p req w' =
           process_speech pe clk p (req\<lparr>CallSid := Some (tpl (CallSid req)), To := Some (tpl (To req))\<rparr>) w'
       \<and> call_ended clk req w' =
           call_ended clk (req\<lparr>CallSid := Some (tpl (CallSid req)), To := Some (tpl (To req))\<rparr>) w'"
proof (intro conjI)
  show "sessionAt (snd (incoming_call pe clk p req w)) (sessionKey (To req) (CallSid req))
           = Some (newSession clk req tenant)"
    unfolding incoming_call_kv [OF assms(2)] sessionAt_def by simp
  show "sessionKey (To req) (CallSid req)
           = ''tenant:'' @ (case To req of None \<Rightarrow> ''undefined'' | Some tid \<Rightarrow> tid)
               @ '':call:session:'' @ (case CallSid req of None \<Rightarrow> ''undefined'' | Some sid \<Rightarrow> sid)"
    by (simp add: sessionKey_def tpl_def)
  show "process_speech pe clk p req w' =
           process_speech pe clk p (req\<lparr>CallSid := Some (tpl (CallSid req)), To := Some (tpl (To req))\<rparr>) w'"
    by (simp add: process_speech_def Let_def sessionKey_tpl getTenantConfig_tpl speechOf_ids
        aiReply_tpl split: sum.splits option.splits doc.splits)
  show "call_ended clk req w' =
           call_ended clk (req\<lparr>CallSid := Some (tpl (CallSid req)), To := Some (tpl (To req))\<rparr>) w'"
    by (simp add: call_ended_def Let_def sessionKey_tpl logKey_tpl analyticsKey_tpl
        split: sum.splits option.splits)
qed

theorem missing_identifier_not_rejected_witness:
  "(CallSid (exRequest None (Some ''+15550001'') None) = None
      \<or> To (exRequest None (Some ''+15550001'') None) = None)
   \<and> getTenantConfig exEnv emptyWorld (To (exRequest None (Some ''+15550001'') None))
      = Inr (defaultTenant exEnv)
   \<and> sessionAt (snd (incoming_call exEnv (exClock 0) exOk (exRequest None (Some ''+15550001'') None)
        emptyWorld)) ''tenant:+15550001:call:session:undefined''
      = Some (newSession (exClock 0) (exRequest None (Some ''+15550001'') None) (defaultTenant exEnv))
   \<and> process_speech exEnv (exClock 0) exOk (exRequest None (Some ''+15550001'') None) emptyWorld
      = process_speech exEnv (exClock 0) exOk (exRequest (Some ''undefined'') (Some ''+15550001'') None) emptyWorld
   \<and> call_ended (exClock 0) (exRequest None (Some ''+15550001'') None) emptyWorld
      = call_ended (exClock 0) (exRequest (Some ''undefined'') (Some ''+15550001'') None) emptyWorld"
proof -
  let ?req = "exRequest None (Some ''+15550001'') None"
  have h: "CallSid ?req = None \<or> To ?req = None" by (simp add: exRequest_def)
  have e: "?req\<lparr>CallSid := Some (tpl (CallSid ?req)), To := Some (tpl (To ?req))\<rparr>
      = exRequest (Some ''undefined'') (Some ''+15550001'') None"
    by (simp add: exRequest_def tpl_def)
  have k: "sessionKey (To ?req) (CallSid ?req) = ''tenant:+15550001:call:session:undefined''"
    by (simp add: sessionKey_def tpl_def exRequest_def)
  note th = missing_identifier_not_rejected [OF h emptyWorld_tenant, of "exClock 0" exOk emptyWorld]
  show ?thesis
    using th h emptyWorld_tenant [of "To ?req"] unfolding e k by blast
qed

text \<open>
  The claim as stated fails: an initiation event without \<open>CallSid\<close> on an empty store
  is answered with the welcome audio and leaves a session under the \<open>undefined\<close> key.
\<close>

theorem missing_identifier_counterexample:
  "sessionAt emptyWorld ''tenant:+15550001:call:session:undefined'' = None
   \<and> fst (incoming_call exEnv (exClock 0) exOk (exRequest None (Some ''+15550001'') None) emptyWorld)
       = Sent (PlayGather (Welcome ''undefined''))
   \<and> map_option callSid (sessionAt (snd (incoming_call exEnv (exClock 0) exOk
        (exRequest None (Some ''+15550001'') None) emptyWorld)) ''tenant:+15550001:call:session:undefined'')
       = Some None
   \<and> map_option resolvedBy (sessionAt (snd (incoming_call exEnv (exClock 0) exOk
        (exRequest None (Some ''+15550001'') None) emptyWorld)) ''tenant:+15550001:call:session:undefined'')
       = Some ''AI''"
  by code_simp

end
